theory Spec2Isabelle
  imports Complex_Main
begin

text \<open>
  The fork-race orchestration of \<open>flare_bypass_server.py\<close>: the race coordinator
  \<open>wait_first_non_exception\<close>, the deferred scheduler \<open>deffered_call\<close>, the identity
  fetch \<open>get_user_agent\<close>, one attempt \<open>solve\<close>, and \<open>process_solve_request\<close>,
  which normalises the proxy, builds the fork plan, joins the race with the identity fetch
  and assembles the response envelope. Coroutines are modelled by their outcomes; what
  the event loop, the solver, the URL parser, the clock and the file system do is given
  as an explicit environment.
\<close>

section \<open>Exceptions and task outcomes\<close>

text \<open>
  A Python exception is modelled by its class name and by the text that \<open>str(e)\<close>
  gives. \<open>PyExc\<close> is an instance of \<open>Exception\<close>, which a handler
  \<open>except Exception\<close> catches; \<open>PyBaseExc\<close> is an instance of \<open>BaseException\<close>
  outside \<open>Exception\<close> (\<open>asyncio.CancelledError\<close>, \<open>KeyboardInterrupt\<close>,
  \<open>SystemExit\<close>), which such a handler lets through. A coroutine that has finished
  has either returned a value or raised.
\<close>

datatype py_exception =
    PyExc (exc_class: string) (exc_str: string)
  | PyBaseExc (exc_class: string) (exc_str: string)

fun is_Exception :: "py_exception \<Rightarrow> bool" where
  "is_Exception (PyExc c s) = True"
| "is_Exception (PyBaseExc c s) = False"

datatype 'r outcome = Returned 'r | Raised py_exception

fun the_result :: "'r outcome \<Rightarrow> 'r option" where
  "the_result (Returned r) = Some r"
| "the_result (Raised e) = None"

fun the_exc :: "'r outcome \<Rightarrow> py_exception option" where
  "the_exc (Raised e) = Some e"
| "the_exc (Returned r) = None"

section \<open>The race coordinator: \<open>wait_first_non_exception\<close>\<close>

text \<open>
  The coordinator keeps four local variables. Tasks are named by their position in the
  list handed to the coordinator (\<open>task_features = [ensure_future(t()) for t in tasks]\<close>).
\<close>

record 'r race_state =
  task_features :: "nat list"
  to_cancel_tasks :: "nat list"
  skipped_results :: "'r list"
  exceptions :: "py_exception list"

text \<open>
  How the coroutine ends: \<open>return (res, skipped_results, exceptions)\<close> or \<open>raise e\<close>.
\<close>

datatype 'r race_exit =
    Return "'r option" "'r list" "py_exception list"
  | Raise py_exception

text \<open>
  The first inner loop: \<open>for f in finished: task_features.remove(f)\<close>.
\<close>

fun remove_finished :: "nat list \<Rightarrow> nat list \<Rightarrow> nat list" where
  "remove_finished tf [] = tf"
| "remove_finished tf (f # fs) = remove_finished (remove1 f tf) fs"

text \<open>
  The second inner loop, over the finished tasks in the order in which the set
  \<open>finished\<close> is iterated. \<open>result f\<close> is what \<open>await f\<close> gives for the finished
  task \<open>f\<close>. The handler is \<open>except Exception\<close>: an exception outside
  \<open>Exception\<close> is not recorded and leaves the coordinator at once. The loop either
  leaves the coroutine (\<open>Some\<close> exit) or runs to its end.
\<close>

fun process_finished ::
  "('r \<Rightarrow> bool) \<Rightarrow> (nat \<Rightarrow> 'r outcome) \<Rightarrow> 'r race_state \<Rightarrow> nat list
     \<Rightarrow> 'r race_exit option \<times> 'r race_state" where
  "process_finished return_condition result st [] = (None, st)"
| "process_finished return_condition result st (f # fs) =
     (case result f of
        Returned res \<Rightarrow>
          if return_condition res
          then (Some (Return (Some res) (skipped_results st) (exceptions st)), st)
          else process_finished return_condition result
                 (st\<lparr>skipped_results := skipped_results st @ [res]\<rparr>) fs
      | Raised e \<Rightarrow>
          if is_Exception e then
            (let st' = st\<lparr>exceptions := exceptions st @ [e]\<rparr>
             in if task_features st' = [] then (Some (Raise e), st')
                else process_finished return_condition result st' fs)
          else (Some (Raise e), st))"

text \<open>
  The \<open>while task_features\<close> loop. Each element of the schedule is one return of
  \<open>asyncio.wait(task_features, return_when = FIRST_COMPLETED)\<close>: the tasks that are
  done at that moment, in the iteration order of the returned set; the tasks still
  pending are the rest of \<open>task_features\<close>. A schedule that ends while tasks are
  outstanding means that \<open>asyncio.wait\<close> never returns: the coroutine does not
  finish (\<open>None\<close>).
\<close>

fun wait_loop ::
  "('r \<Rightarrow> bool) \<Rightarrow> (nat \<Rightarrow> 'r outcome) \<Rightarrow> 'r race_state \<Rightarrow> nat list list
     \<Rightarrow> ('r race_exit \<times> 'r race_state) option" where
  "wait_loop return_condition result st [] =
     (if task_features st = []
      then Some (Return None (skipped_results st) (exceptions st), st)
      else None)"
| "wait_loop return_condition result st (finished # sched) =
     (if task_features st = []
      then Some (Return None (skipped_results st) (exceptions st), st)
      else
        (let st1 = st\<lparr>to_cancel_tasks := filter (\<lambda>t. t \<notin> set finished) (task_features st)\<rparr>;
             st2 = st1\<lparr>task_features := remove_finished (task_features st1) finished\<rparr>
         in case process_finished return_condition result st2 finished of
              (Some ex, st3) \<Rightarrow> Some (ex, st3)
            | (None, st3) \<Rightarrow> wait_loop return_condition result st3 sched))"

text \<open>
  A finished run of the coordinator: how it ended, the tasks that received
  \<open>cancel()\<close> in the \<open>finally\<close> block, and the failures recorded when it ended.
\<close>

record 'r race_run =
  race_exit :: "'r race_exit"
  cancelled :: "nat list"
  recorded :: "py_exception list"

definition wait_first_non_exception ::
  "'r outcome list \<Rightarrow> ('r \<Rightarrow> bool) \<Rightarrow> nat list list \<Rightarrow> 'r race_run option" where
  "wait_first_non_exception tasks return_condition sched =
     (case wait_loop return_condition (\<lambda>f. tasks ! f)
             \<lparr>task_features = [0..<length tasks], to_cancel_tasks = [],
              skipped_results = [], exceptions = []\<rparr> sched of
        None \<Rightarrow> None
      | Some (ex, st) \<Rightarrow>
          Some \<lparr>race_exit = ex, cancelled = to_cancel_tasks st, recorded = exceptions st\<rparr>)"

text \<open>The default acceptance predicate, \<open>lambda x: True\<close>.\<close>

definition accept_any :: "'r \<Rightarrow> bool" where
  "accept_any x = True"

text \<open>
  What \<open>asyncio.wait\<close> guarantees about a schedule: every return reports at least one
  finished task, each of them once, and only tasks that were still outstanding.
\<close>

fun wf_schedule :: "nat list \<Rightarrow> nat list list \<Rightarrow> bool" where
  "wf_schedule pending [] = True"
| "wf_schedule pending (finished # sched) =
     (finished \<noteq> [] \<and> distinct finished \<and> set finished \<subseteq> set pending \<and>
      wf_schedule (filter (\<lambda>t. t \<notin> set finished) pending) sched)"

section \<open>Python values and their text\<close>

text \<open>
  The values that travel through dictionaries of the server (cookie dictionaries, the
  solver arguments, the response body): \<open>None\<close>, booleans, integers, floats and
  strings. \<open>truthy\<close> is Python's truth test of a value.
\<close>

datatype pyval = PNone | PBool bool | PInt int | PFloat real | PStr string

fun truthy :: "pyval \<Rightarrow> bool" where
  "truthy PNone = False"
| "truthy (PBool b) = b"
| "truthy (PInt i) = (i \<noteq> 0)"
| "truthy (PFloat x) = (x \<noteq> 0)"
| "truthy (PStr s) = (s \<noteq> [])"

text \<open>\<open>str(n)\<close> of an integer: its decimal digits, with a sign when negative.\<close>

definition digit_char :: "nat \<Rightarrow> char" where
  "digit_char d = ''0123456789'' ! d"

function str_nat :: "nat \<Rightarrow> string" where
  "str_nat n = (if n < 10 then [digit_char n] else str_nat (n div 10) @ [digit_char (n mod 10)])"
  by pat_completeness auto
termination
  by (relation "measure id") auto

declare str_nat.simps [simp del]

definition str_int :: "int \<Rightarrow> string" where
  "str_int i = (if i < 0 then ''-'' @ str_nat (nat (- i)) else str_nat (nat i))"

text \<open>
  \<open>max_timeout\<close> is a number: the signature of \<open>process_solve_request\<close> says
  \<open>int\<close>, the endpoints pass the float \<open>maxTimeout\<close>. \<open>str\<close> of a float that is a
  whole number below \<open>10^16\<close> is its digits followed by \<open>.0\<close>; the text of any
  other float is left to \<open>repr\<close>, a parameter.
\<close>

datatype number = NInt int | NFloat real

fun number_real :: "number \<Rightarrow> real" where
  "number_real (NInt i) = real_of_int i"
| "number_real (NFloat x) = x"

definition str_float :: "(real \<Rightarrow> string) \<Rightarrow> real \<Rightarrow> string" where
  "str_float repr x =
     (if x = real_of_int \<lfloor>x\<rfloor> \<and> \<bar>x\<bar> < 10 ^ 16 then str_int \<lfloor>x\<rfloor> @ ''.0'' else repr x)"

fun str_number :: "(real \<Rightarrow> string) \<Rightarrow> number \<Rightarrow> string" where
  "str_number repr (NInt i) = str_int i"
| "str_number repr (NFloat x) = str_float repr x"

text \<open>The quotes that Python puts around a name in its messages.\<close>

definition quoted :: "string \<Rightarrow> string" where
  "quoted s = [CHR 0x27] @ s @ [CHR 0x27]"

definition dquoted :: "string \<Rightarrow> string" where
  "dquoted s = [CHR 0x22] @ s @ [CHR 0x22]"

text \<open>The name of a value's type, as \<open>TypeError\<close> prints it.\<close>

fun type_name :: "pyval \<Rightarrow> string" where
  "type_name PNone = ''NoneType''"
| "type_name (PBool b) = ''bool''"
| "type_name (PInt i) = ''int''"
| "type_name (PFloat x) = ''float''"
| "type_name (PStr s) = ''str''"

text \<open>
  The \<open>TypeError\<close> of a binary operator whose left operand is \<open>None\<close>, as in
  \<open>None + "://"\<close>.
\<close>

definition unsupported_operand :: "string \<Rightarrow> string \<Rightarrow> py_exception" where
  "unsupported_operand operator right_type =
     PyExc ''TypeError'' (''unsupported operand type(s) for '' @ operator @ '': '' @
       quoted ''NoneType'' @ '' and '' @ quoted right_type)"

section \<open>Proxy normalisation\<close>

text \<open>
  \<open>ProxyModel\<close> has three optional fields. \<open>parsed_url\<close> is the value returned by
  \<open>urllib3.util.parse_url\<close>, a library function that is not part of the repository: it
  is a parameter of the model and may raise.
\<close>

record ProxyModel =
  proxy_url :: "string option"
  proxy_username :: "string option"
  proxy_password :: "string option"

datatype proxy_arg = ProxyStr string | ProxyObj ProxyModel

record parsed_url =
  url_scheme :: "string option"
  url_auth :: "string option"
  url_host :: "string option"
  url_port :: "int option"
  url_path :: "string option"
  url_query :: "string option"
  url_fragment :: "string option"

text \<open>
  Lines 209 to 223 of \<open>process_solve_request\<close>, which stand before its \<open>try\<close>. The
  concatenation is evaluated from the left: a missing scheme fails first
  (\<open>None + "://"\<close>), a missing host name after the credentials. An empty user name, an
  empty password and the port 0 are false in Python's truth test.
\<close>

definition credentials :: "ProxyModel \<Rightarrow> string" where
  "credentials pm =
     (case proxy_username pm of
        None \<Rightarrow> []
      | Some user \<Rightarrow>
          if user = [] then []
          else user @ '':'' @ (case proxy_password pm of None \<Rightarrow> [] | Some pass \<Rightarrow> pass) @ ''@'')"

definition adapt_proxy ::
  "(string \<Rightarrow> py_exception + parsed_url) \<Rightarrow> proxy_arg option \<Rightarrow> py_exception + string option" where
  "adapt_proxy parse_url proxy =
     (case proxy of
        None \<Rightarrow> Inr None
      | Some (ProxyStr s) \<Rightarrow> Inr (Some s)
      | Some (ProxyObj pm) \<Rightarrow>
          (case proxy_url pm of
             None \<Rightarrow> Inr None
           | Some u \<Rightarrow>
               (case parse_url u of
                  Inl e \<Rightarrow> Inl e
                | Inr parsed_proxy \<Rightarrow>
                    (case url_scheme parsed_proxy of
                       None \<Rightarrow> Inl (unsupported_operand ''+'' ''str'')
                     | Some scheme \<Rightarrow>
                         (case url_host parsed_proxy of
                            None \<Rightarrow> Inl (PyExc ''TypeError''
                              (''can only concatenate str (not '' @ dquoted ''NoneType'' @
                               '') to str''))
                          | Some hostname \<Rightarrow>
                              Inr (Some (scheme @ ''://'' @ credentials pm @ hostname @
                                (case url_port parsed_proxy of
                                   None \<Rightarrow> []
                                 | Some port \<Rightarrow>
                                     if port = 0 then [] else '':'' @ str_int port))))))))"

section \<open>Cookies\<close>

text \<open>
  \<open>CookieModel\<close>: three mandatory strings and four optional fields with the defaults
  \<open>None\<close>, \<open>'/'\<close>, \<open>True\<close> and \<open>None\<close>.
\<close>

record CookieModel =
  cookie_name :: string
  cookie_value :: string
  cookie_domain :: string
  cookie_port :: "int option"
  cookie_path :: "string option"
  cookie_secure :: "bool option"
  cookie_expires :: "real option"

text \<open>
  \<open>CookieModel(**cookie)\<close> for a dictionary \<open>cookie\<close> is pydantic's work. What
  pydantic makes of a value given for a field of type \<open>str\<close>, \<open>int\<close>, \<open>bool\<close> or
  \<open>float\<close> (the value it stores, or none when it refuses the value) and the text of the
  \<open>ValidationError\<close> it raises for a dictionary are parameters of the model.
\<close>

record pydantic =
  valid_str :: "pyval \<Rightarrow> string option"
  valid_int :: "pyval \<Rightarrow> int option"
  valid_bool :: "pyval \<Rightarrow> bool option"
  valid_float :: "pyval \<Rightarrow> real option"
  error_text :: "(string \<rightharpoonup> pyval) \<Rightarrow> string"

text \<open>
  What the declarations of \<open>CookieModel\<close> fix: \<open>name\<close>, \<open>value\<close> and \<open>domain\<close>
  must be there; \<open>port\<close>, \<open>path\<close>, \<open>secure\<close> and \<open>expires\<close> take their default
  when the key is absent and stay \<open>None\<close> when the key holds \<open>None\<close>; a key that is no
  field is ignored; one refused field makes the whole construction raise.
\<close>

definition required_field :: "(pyval \<Rightarrow> 'a option) \<Rightarrow> pyval option \<Rightarrow> 'a option" where
  "required_field valid given = (case given of None \<Rightarrow> None | Some v \<Rightarrow> valid v)"

definition optional_field ::
  "(pyval \<Rightarrow> 'a option) \<Rightarrow> 'a option \<Rightarrow> pyval option \<Rightarrow> 'a option option" where
  "optional_field valid dflt given =
     (case given of
        None \<Rightarrow> Some dflt
      | Some PNone \<Rightarrow> Some None
      | Some v \<Rightarrow> (case valid v of None \<Rightarrow> None | Some x \<Rightarrow> Some (Some x)))"

definition CookieModel_init ::
  "pydantic \<Rightarrow> (string \<rightharpoonup> pyval) \<Rightarrow> py_exception + CookieModel" where
  "CookieModel_init pd cookie =
     (case
        Option.bind (required_field (valid_str pd) (cookie ''name'')) (\<lambda>n.
        Option.bind (required_field (valid_str pd) (cookie ''value'')) (\<lambda>v.
        Option.bind (required_field (valid_str pd) (cookie ''domain'')) (\<lambda>d.
        Option.bind (optional_field (valid_int pd) None (cookie ''port'')) (\<lambda>po.
        Option.bind (optional_field (valid_str pd) (Some ''/'') (cookie ''path'')) (\<lambda>pa.
        Option.bind (optional_field (valid_bool pd) (Some True) (cookie ''secure'')) (\<lambda>se.
        Option.bind (optional_field (valid_float pd) None (cookie ''expires'')) (\<lambda>ex.
          Some \<lparr>cookie_name = n, cookie_value = v, cookie_domain = d, cookie_port = po,
                cookie_path = pa, cookie_secure = se, cookie_expires = ex\<rparr>)))))))
      of
        None \<Rightarrow> Inl (PyExc ''ValidationError'' (error_text pd cookie))
      | Some c \<Rightarrow> Inr c)"

text \<open>
  The list comprehension \<open>[CookieModel(**cookie) for cookie in solve_response.cookies]\<close>:
  the first dictionary that is refused raises.
\<close>

fun convert_cookies ::
  "pydantic \<Rightarrow> (string \<rightharpoonup> pyval) list \<Rightarrow> py_exception + CookieModel list" where
  "convert_cookies pd [] = Inr []"
| "convert_cookies pd (c # cs) =
     (case CookieModel_init pd c of
        Inl e \<Rightarrow> Inl e
      | Inr m \<Rightarrow> (case convert_cookies pd cs of Inl e \<Rightarrow> Inl e | Inr ms \<Rightarrow> Inr (m # ms)))"

text \<open>
  The request's cookies are dictionaries already or \<open>CookieModel\<close> objects, of which
  \<open>__dict__\<close> is taken.
\<close>

datatype cookie_arg = CookieDict "string \<rightharpoonup> pyval" | CookieObj CookieModel

definition opt_val :: "('a \<Rightarrow> pyval) \<Rightarrow> 'a option \<Rightarrow> pyval" where
  "opt_val f x = (case x of None \<Rightarrow> PNone | Some y \<Rightarrow> f y)"

definition CookieModel_dict :: "CookieModel \<Rightarrow> (string \<rightharpoonup> pyval)" where
  "CookieModel_dict c =
     [''name'' \<mapsto> PStr (cookie_name c), ''value'' \<mapsto> PStr (cookie_value c),
      ''domain'' \<mapsto> PStr (cookie_domain c), ''port'' \<mapsto> opt_val PInt (cookie_port c),
      ''path'' \<mapsto> opt_val PStr (cookie_path c), ''secure'' \<mapsto> opt_val PBool (cookie_secure c),
      ''expires'' \<mapsto> opt_val PFloat (cookie_expires c)]"

fun cookie_dict :: "cookie_arg \<Rightarrow> (string \<rightharpoonup> pyval)" where
  "cookie_dict (CookieDict d) = d"
| "cookie_dict (CookieObj c) = CookieModel_dict c"

section \<open>Requests, responses and the solver\<close>

text \<open>
  \<open>flare_bypasser.Request\<close> as \<open>process_solve_request\<close> fills it, and the fields of
  the solver's response that the server reads. Both classes belong to the solver
  package; only their use is in the server.
\<close>

record Request =
  req_cmd :: "string option"
  req_url :: string
  req_cookies :: "(string \<rightharpoonup> pyval) list"
  req_max_timeout :: real
  req_proxy :: "string option"
  req_params :: "(string \<rightharpoonup> pyval) option"

record Response =
  resp_message :: string
  resp_url :: string
  resp_cookies :: "(string \<rightharpoonup> pyval) list"
  resp_response :: "pyval option"
  resp_user_agent :: "string option"

text \<open>
  The keyword arguments with which \<open>flare_bypasser.Solver\<close> is built. \<open>init_proxy\<close>
  is \<open>None\<close> when the keyword \<open>proxy\<close> is not given at all, \<open>Some p\<close> when it is
  given the value \<open>p\<close> (which may be Python's \<open>None\<close>).
\<close>

record solver_init =
  init_proxy :: "string option option"
  init_log_prefix :: string
  init_kwargs :: "string \<rightharpoonup> pyval"

text \<open>
  What a coroutine of the server does, as far as the server sees it: the suspensions of
  \<open>asyncio.sleep\<close>, the solver runs it starts for an attempt (\<open>SolverRun\<close>) and for the
  identity probe (\<open>ProbeRun\<close>), in order, and how it ends.
\<close>

datatype event = Sleep real | SolverRun solver_init | ProbeRun solver_init

type_synonym 'r task_run = "event list \<times> 'r outcome"

section \<open>The deferred scheduler: \<open>deffered_call\<close>\<close>

definition deffered_call :: "(unit \<Rightarrow> 'r task_run) \<Rightarrow> real \<Rightarrow> 'r task_run" where
  "deffered_call task timeout =
     (case task () of
        (events, res) \<Rightarrow> ((if timeout > 0 then [Sleep timeout] else []) @ events, res))"

section \<open>One attempt: \<open>solve\<close>\<close>

text \<open>
  A call of \<open>solve\<close> gives the request by position and the rest by keyword. Python
  binds the keywords to the parameters of the signature
  \<open>solve(solve_request, proxy, log_prefix, solver_args)\<close> before the body runs, and
  raises \<open>TypeError\<close> for a keyword that is no parameter. A parameter that is not
  given takes its default.
\<close>

datatype kwarg =
    KwProxy "string option"
  | KwLogPrefix string
  | KwSolverArgs "string \<rightharpoonup> pyval"
  | KwBool bool

definition solve_parameters :: "string list" where
  "solve_parameters = [''solve_request'', ''proxy'', ''log_prefix'', ''solver_args'']"

definition solve ::
  "(solver_init \<Rightarrow> Request \<Rightarrow> Response outcome) \<Rightarrow> Request \<Rightarrow> (string \<times> kwarg) list
     \<Rightarrow> Response task_run" where
  "solve Solver_solve solve_request kwargs =
     (case filter (\<lambda>k. k \<notin> set solve_parameters) (map fst kwargs) of
        k # ks \<Rightarrow>
          ([], Raised (PyExc ''TypeError''
                 (''solve() got an unexpected keyword argument '' @ quoted k)))
      | [] \<Rightarrow>
          (let solver = \<lparr>
                 init_proxy =
                   Some (case map_of kwargs ''proxy'' of Some (KwProxy p) \<Rightarrow> p | _ \<Rightarrow> None),
                 init_log_prefix =
                   (case map_of kwargs ''log_prefix'' of Some (KwLogPrefix s) \<Rightarrow> s | _ \<Rightarrow> []),
                 init_kwargs =
                   (case map_of kwargs ''solver_args'' of
                      Some (KwSolverArgs a) \<Rightarrow> a | _ \<Rightarrow> Map.empty)\<rparr>
           in ([SolverRun solver], Solver_solve solver solve_request)))"

section \<open>The fork plan\<close>

record DefferedForksModel =
  fm_forks :: int
  fm_delay :: real

text \<open>
  The two kinds of task factory that \<open>process_solve_request\<close> appends to
  \<open>solve_tasks\<close>. Each is a lambda whose default argument \<open>fork_i = cur_fork_i\<close>
  fixes the index when the lambda is made. \<open>forks_model.delay\<close> has no such default:
  the lambda reads the variable \<open>forks_model\<close> when it is called.
\<close>

datatype solve_task = SolveTask nat | DefferedTask nat

fun fork_i :: "solve_task \<Rightarrow> nat" where
  "fork_i (SolveTask i) = i"
| "fork_i (DefferedTask i) = i"

text \<open>\<open>for i in range(forks_model.forks)\<close>: append a task, then \<open>cur_fork_i += 1\<close>.\<close>

fun group_tasks :: "nat \<Rightarrow> nat \<Rightarrow> solve_task list" where
  "group_tasks cur_fork_i 0 = []"
| "group_tasks cur_fork_i (Suc n) = DefferedTask cur_fork_i # group_tasks (Suc cur_fork_i) n"

text \<open>
  \<open>for forks_model in forks\<close>. \<open>range\<close> of a number below 1 is empty, which
  \<open>nat\<close> gives for a negative \<open>forks\<close>.
\<close>

fun fork_tasks :: "nat \<Rightarrow> DefferedForksModel list \<Rightarrow> solve_task list" where
  "fork_tasks cur_fork_i [] = []"
| "fork_tasks cur_fork_i (forks_model # forks) =
     group_tasks cur_fork_i (nat (fm_forks forks_model)) @
     fork_tasks (cur_fork_i + nat (fm_forks forks_model)) forks"

definition solve_tasks :: "DefferedForksModel list \<Rightarrow> solve_task list" where
  "solve_tasks forks = SolveTask 0 # fork_tasks 1 forks"

text \<open>
  The variable \<open>forks_model\<close> once the loops are over, when the coordinator calls the
  lambdas: the last element of \<open>forks\<close>, and unbound when the list is empty.
\<close>

definition final_forks_model :: "DefferedForksModel list \<Rightarrow> DefferedForksModel option" where
  "final_forks_model forks = (if forks = [] then None else Some (last forks))"

definition log_prefix :: "nat \<Rightarrow> string" where
  "log_prefix i = ''fork #'' @ str_nat i @ '', ''"

definition attempt_kwargs ::
  "string option \<Rightarrow> (string \<rightharpoonup> pyval) \<Rightarrow> nat \<Rightarrow> (string \<times> kwarg) list" where
  "attempt_kwargs proxy local_solver_args i =
     [(''proxy'', KwProxy proxy), (''solver_args'', KwSolverArgs local_solver_args),
      (''log_prefix'', KwLogPrefix (log_prefix i))]"

text \<open>
  Calling a task factory, as \<open>ensure_future(t())\<close> does in the coordinator. The
  deferred lambda passes \<open>fill_user_agent=False\<close> to \<open>solve\<close> besides the keywords
  of the primary one.
\<close>

fun run_task ::
  "(solver_init \<Rightarrow> Request \<Rightarrow> Response outcome) \<Rightarrow> Request \<Rightarrow> string option
     \<Rightarrow> (string \<rightharpoonup> pyval) \<Rightarrow> DefferedForksModel option \<Rightarrow> solve_task \<Rightarrow> Response task_run" where
  "run_task Solver_solve solve_request proxy local_solver_args forks_model (SolveTask i) =
     solve Solver_solve solve_request (attempt_kwargs proxy local_solver_args i)"
| "run_task Solver_solve solve_request proxy local_solver_args forks_model (DefferedTask i) =
     (case forks_model of
        None \<Rightarrow> ([], Raised (PyExc ''NameError''
                  (''cannot access free variable '' @ quoted ''forks_model'' @
                   '' where it is not associated with a value in enclosing scope'')))
      | Some fm \<Rightarrow>
          deffered_call
            (\<lambda>_. solve Solver_solve solve_request
                    (attempt_kwargs proxy local_solver_args i @
                     [(''fill_user_agent'', KwBool False)]))
            (fm_delay fm))"

section \<open>The identity fetch: \<open>get_user_agent\<close>\<close>

text \<open>
  An awaitable finishes by itself after some time (in seconds) with an outcome, or never
  does; and when it is cancelled while it runs it stops, or ends with an outcome of its
  own, or does not stop. \<open>asyncio.wait_for\<close> gives the outcome of an awaitable that
  finishes before the timeout. Otherwise it cancels the awaitable and waits until it has
  ended: it raises \<open>TimeoutError\<close> when the awaitable stops (which may be later than
  the deadline), passes on the outcome the awaitable ends with, and does not return
  (\<open>None\<close>) while the awaitable does not stop.
\<close>

datatype 'r cancelled = Stops | EndsWith "'r outcome" | NeverStops

datatype 'r awaitable =
  Awaitable (finishes: "(real \<times> 'r outcome) option") (when_cancelled: "'r cancelled")

fun after_cancel :: "'r cancelled \<Rightarrow> 'r outcome option" where
  "after_cancel Stops = Some (Raised (PyExc ''TimeoutError'' []))"
| "after_cancel (EndsWith res) = Some res"
| "after_cancel NeverStops = None"

fun wait_for :: "'r awaitable \<Rightarrow> real \<Rightarrow> 'r outcome option" where
  "wait_for (Awaitable None wc) timeout = after_cancel wc"
| "wait_for (Awaitable (Some (d, res)) wc) timeout =
     (if d < timeout then Some res else after_cancel wc)"

definition user_agent_solver :: "(string \<rightharpoonup> pyval) \<Rightarrow> solver_init" where
  "user_agent_solver solver_args =
     \<lparr>init_proxy = None, init_log_prefix = ''fork user-agent'', init_kwargs = solver_args\<rparr>"

definition on_user_agent_getting :: "py_exception \<Rightarrow> py_exception" where
  "on_user_agent_getting e = PyExc ''Exception'' (''On user-agent getting: '' @ exc_str e)"

text \<open>
  The inner handler catches \<open>TimeoutError\<close>, the outer one \<open>Exception\<close>: an exception
  of the probe outside \<open>Exception\<close> passes both unchanged. The probe is made before
  \<open>max_timeout / 1000\<close> is computed and is started by \<open>wait_for\<close>, so that no probe runs
  when \<open>max_timeout\<close> is \<open>None\<close>. The result is the events of the coroutine and its
  outcome, if it ends.
\<close>

definition get_user_agent ::
  "(real \<Rightarrow> string) \<Rightarrow> (solver_init \<Rightarrow> string awaitable) \<Rightarrow> (string \<rightharpoonup> pyval)
     \<Rightarrow> number option \<Rightarrow> event list \<times> string outcome option" where
  "get_user_agent repr Solver_get_user_agent solver_args max_timeout =
     (case max_timeout of
        None \<Rightarrow> ([], Some (Raised (on_user_agent_getting (unsupported_operand ''/'' ''int''))))
      | Some m \<Rightarrow>
          ([ProbeRun (user_agent_solver solver_args)],
           (case wait_for (Solver_get_user_agent (user_agent_solver solver_args))
                   (number_real m / 1000) of
              None \<Rightarrow> None
            | Some (Returned ua) \<Rightarrow> Some (Returned ua)
            | Some (Raised e) \<Rightarrow>
                if \<not> is_Exception e then Some (Raised e)
                else if exc_class e = ''TimeoutError''
                then Some (Raised (on_user_agent_getting (PyExc ''Exception''
                       (''Processing timeout (max_timeout='' @ str_number repr m @ '')''))))
                else Some (Raised (on_user_agent_getting e)))))"

section \<open>The response envelope\<close>

record HandleCommandResponseSolution =
  sol_status :: int
  sol_url :: string
  sol_cookies :: "CookieModel list"
  sol_userAgent :: "string option"
  sol_response :: "pyval option"

record HandleCommandResponse =
  status :: string
  message :: string
  startTimestamp :: real
  endTimestamp :: real
  solution :: "HandleCommandResponseSolution option"

section \<open>The request pipeline: \<open>process_solve_request\<close>\<close>

text \<open>
  Everything outside the server that one request meets: the two clock readings, the URL
  parser, the two random directory names, the outcome of \<open>mkdir\<close> for a path, what the
  solver does for an attempt and for the identity probe, the returns of
  \<open>asyncio.wait\<close> inside the coordinator, which branch of \<open>asyncio.gather\<close> raises
  first when both raise, the text of a float and pydantic's validation.
\<close>

datatype gather_first = RaceFirst | IdentityFirst

record environment =
  now_start :: real
  now_end :: real
  parse_url :: "string \<Rightarrow> py_exception + parsed_url"
  uuid4_debug :: string
  uuid4_screenshots :: string
  mkdir :: "string \<Rightarrow> py_exception option"
  Solver_solve :: "solver_init \<Rightarrow> Request \<Rightarrow> Response outcome"
  Solver_get_user_agent :: "solver_init \<Rightarrow> string awaitable"
  schedule :: "nat list list"
  first_to_raise :: gather_first
  float_repr :: "real \<Rightarrow> string"
  validation :: pydantic

text \<open>
  The two module-level dictionaries: \<open>solver_args\<close> and the \<open>forks\<close> entry of
  \<open>request_processing_default_args\<close>.
\<close>

record configuration =
  solver_args :: "string \<rightharpoonup> pyval"
  default_forks :: "DefferedForksModel list"

definition os_path_join :: "string \<Rightarrow> string \<Rightarrow> string" where
  "os_path_join a b = (if a = [] \<or> last a = CHR ''/'' then a @ b else a @ ''/'' @ b)"

text \<open>
  Lines 239 to 242, and again 244 to 247 for the other key: a directory of its own under
  the configured one. Reading a key that the dictionary lacks raises \<open>KeyError\<close>.
\<close>

definition isolate_dir ::
  "(string \<Rightarrow> py_exception option) \<Rightarrow> string \<Rightarrow> string \<Rightarrow> (string \<rightharpoonup> pyval)
     \<Rightarrow> py_exception + (string \<rightharpoonup> pyval)" where
  "isolate_dir mkdir_path key uuid local_solver_args =
     (case local_solver_args key of
        None \<Rightarrow> Inl (PyExc ''KeyError'' (quoted key))
      | Some v \<Rightarrow>
          if truthy v then
            (case v of
               PStr base \<Rightarrow>
                 (let debug_dir = os_path_join base uuid
                  in case mkdir_path debug_dir of
                       Some e \<Rightarrow> Inl e
                     | None \<Rightarrow> Inr (local_solver_args(key \<mapsto> PStr debug_dir)))
             | _ \<Rightarrow> Inl (PyExc ''TypeError''
                      (''expected str, bytes or os.PathLike object, not '' @ type_name v)))
          else Inr local_solver_args)"

text \<open>
  Lines 226 to 247: the request object and the request's own copy of the solver
  arguments. \<open>max_timeout * 1.0 / 1000\<close> raises when \<open>max_timeout\<close> is \<open>None\<close>.
\<close>

definition prepare ::
  "environment \<Rightarrow> configuration \<Rightarrow> string \<Rightarrow> string option \<Rightarrow> cookie_arg list option
     \<Rightarrow> number option \<Rightarrow> string option \<Rightarrow> (string \<rightharpoonup> pyval) option
     \<Rightarrow> py_exception + (Request \<times> (string \<rightharpoonup> pyval))" where
  "prepare env conf url cmd cookies max_timeout proxy params =
     (case max_timeout of
        None \<Rightarrow> Inl (unsupported_operand ''*'' ''float'')
      | Some m \<Rightarrow>
          (let solve_request = \<lparr>
                 req_cmd = cmd, req_url = url,
                 req_cookies = (case cookies of None \<Rightarrow> [] | Some cs \<Rightarrow> map cookie_dict cs),
                 req_max_timeout = number_real m * 1.0 / 1000,
                 req_proxy = proxy, req_params = params\<rparr>
           in case isolate_dir (mkdir env) ''debug_dir'' (uuid4_debug env) (solver_args conf) of
                Inl e \<Rightarrow> Inl e
              | Inr args1 \<Rightarrow>
                  (case isolate_dir (mkdir env) ''challenge_screenshots_dir''
                          (uuid4_screenshots env) args1 of
                     Inl e \<Rightarrow> Inl e
                   | Inr local_solver_args \<Rightarrow> Inr (solve_request, local_solver_args))))"

text \<open>
  \<open>asyncio.gather\<close> of the coordinator and the identity fetch, awaited by the request:
  both results when both return, the first exception as soon as one branch raises, and
  no return at all (\<open>None\<close>) while one branch hangs and the other has not raised.
\<close>

definition gather ::
  "gather_first \<Rightarrow> Response race_run option \<Rightarrow> string outcome option
     \<Rightarrow> (py_exception + (Response option \<times> string)) option" where
  "gather first race identity =
     (case race of
        None \<Rightarrow> (case identity of Some (Raised e) \<Rightarrow> Some (Inl e) | _ \<Rightarrow> None)
      | Some run \<Rightarrow>
          (case race_exit run of
             Raise e1 \<Rightarrow>
               (case identity of
                  Some (Raised e2) \<Rightarrow>
                    Some (Inl (case first of RaceFirst \<Rightarrow> e1 | IdentityFirst \<Rightarrow> e2))
                | _ \<Rightarrow> Some (Inl e1))
           | Return solve_response skipped excs \<Rightarrow>
               (case identity of
                  None \<Rightarrow> None
                | Some (Raised e2) \<Rightarrow> Some (Inl e2)
                | Some (Returned ua) \<Rightarrow> Some (Inr (solve_response, ua)))))"

text \<open>
  Lines 284 to 302: the envelope of a success. Storing the user agent fails when the
  coordinator returned \<open>None\<close>, and a cookie may be refused. The keyword
  \<open>message\<close> given to \<open>HandleCommandResponseSolution\<close> is no field of that model
  and is dropped.
\<close>

definition assemble ::
  "environment \<Rightarrow> Response option \<Rightarrow> string \<Rightarrow> py_exception + HandleCommandResponse" where
  "assemble env solve_response user_agent =
     (case solve_response of
        None \<Rightarrow> Inl (PyExc ''AttributeError''
                  (quoted ''NoneType'' @ '' object has no attribute '' @ quoted ''user_agent''))
      | Some r0 \<Rightarrow>
          (let r = r0\<lparr>resp_user_agent := Some user_agent\<rparr>
           in case convert_cookies (validation env) (resp_cookies r) of
                Inl e \<Rightarrow> Inl e
              | Inr cs \<Rightarrow>
                  Inr \<lparr>status = ''ok'', message = resp_message r,
                       startTimestamp = now_start env, endTimestamp = now_end env,
                       solution = Some \<lparr>sol_status = 200, sol_url = resp_url r,
                         sol_cookies = cs, sol_userAgent = resp_user_agent r,
                         sol_response = resp_response r\<rparr>\<rparr>))"

text \<open>Lines 304 to 312: the envelope of a failure.\<close>

definition error_response :: "environment \<Rightarrow> py_exception \<Rightarrow> HandleCommandResponse" where
  "error_response env e =
     \<lparr>status = ''error'', message = ''Error: '' @ exc_str e,
      startTimestamp = now_start env, endTimestamp = now_end env, solution = None\<rparr>"

text \<open>The runs of the attempt tasks of a request, in the order of \<open>solve_tasks\<close>.\<close>

definition attempt_runs ::
  "(solver_init \<Rightarrow> Request \<Rightarrow> Response outcome) \<Rightarrow> Request \<Rightarrow> string option
     \<Rightarrow> (string \<rightharpoonup> pyval) \<Rightarrow> DefferedForksModel list \<Rightarrow> Response task_run list" where
  "attempt_runs Solver_solve_fn solve_request proxy local_solver_args forks =
     map (run_task Solver_solve_fn solve_request proxy local_solver_args
            (final_forks_model forks))
         (solve_tasks forks)"

text \<open>
  What the coroutines started by one request do: the events of every attempt task, in
  the order of \<open>solve_tasks\<close>, and the events of the identity fetch. Both lists are
  empty when the request fails before \<open>asyncio.gather\<close>.
\<close>

record request_log =
  attempt_events :: "event list list"
  identity_events :: "event list"

text \<open>
  Lines 225 to 302, the body of the \<open>try\<close>: the log, and an exception (\<open>Inl\<close>), an
  envelope, or no return.
\<close>

definition try_body ::
  "environment \<Rightarrow> configuration \<Rightarrow> string \<Rightarrow> string option \<Rightarrow> cookie_arg list option
     \<Rightarrow> number option \<Rightarrow> string option \<Rightarrow> (string \<rightharpoonup> pyval) option
     \<Rightarrow> DefferedForksModel list option
     \<Rightarrow> request_log \<times> (py_exception + HandleCommandResponse) option" where
  "try_body env conf url cmd cookies max_timeout proxy params forks =
     (case prepare env conf url cmd cookies max_timeout proxy params of
        Inl e \<Rightarrow> (\<lparr>attempt_events = [], identity_events = []\<rparr>, Some (Inl e))
      | Inr (solve_request, local_solver_args) \<Rightarrow>
          (let forks' = (case forks of None \<Rightarrow> default_forks conf | Some fs \<Rightarrow> fs);
               runs = attempt_runs (Solver_solve env) solve_request proxy local_solver_args forks';
               identity = get_user_agent (float_repr env) (Solver_get_user_agent env)
                            local_solver_args max_timeout
           in (\<lparr>attempt_events = map fst runs, identity_events = fst identity\<rparr>,
               (case gather (first_to_raise env)
                       (wait_first_non_exception (map snd runs) accept_any (schedule env))
                       (snd identity) of
                  None \<Rightarrow> None
                | Some (Inl e) \<Rightarrow> Some (Inl e)
                | Some (Inr (solve_response, user_agent)) \<Rightarrow>
                    Some (assemble env solve_response user_agent)))))"

text \<open>
  The whole coroutine: the caller gets an envelope, or an exception that leaves
  \<open>process_solve_request\<close>, or waits for ever. The handler of the \<open>try\<close> is
  \<open>except Exception\<close>.
\<close>

datatype request_result = Responds HandleCommandResponse | Escapes py_exception | Hangs

definition run_request ::
  "environment \<Rightarrow> configuration \<Rightarrow> string \<Rightarrow> string option \<Rightarrow> cookie_arg list option
     \<Rightarrow> number option \<Rightarrow> proxy_arg option \<Rightarrow> (string \<rightharpoonup> pyval) option
     \<Rightarrow> DefferedForksModel list option \<Rightarrow> request_log \<times> request_result" where
  "run_request env conf url cmd cookies max_timeout proxy params forks =
     (case adapt_proxy (parse_url env) proxy of
        Inl e \<Rightarrow> (\<lparr>attempt_events = [], identity_events = []\<rparr>, Escapes e)
      | Inr proxy' \<Rightarrow>
          (case try_body env conf url cmd cookies max_timeout proxy' params forks of
             (events, None) \<Rightarrow> (events, Hangs)
           | (events, Some (Inl e)) \<Rightarrow>
               (events, if is_Exception e then Responds (error_response env e) else Escapes e)
           | (events, Some (Inr response)) \<Rightarrow> (events, Responds response)))"

definition process_solve_request ::
  "environment \<Rightarrow> configuration \<Rightarrow> string \<Rightarrow> string option \<Rightarrow> cookie_arg list option
     \<Rightarrow> number option \<Rightarrow> proxy_arg option \<Rightarrow> (string \<rightharpoonup> pyval) option
     \<Rightarrow> DefferedForksModel list option \<Rightarrow> request_result" where
  "process_solve_request env conf url cmd cookies max_timeout proxy params forks =
     snd (run_request env conf url cmd cookies max_timeout proxy params forks)"

definition request_events ::
  "environment \<Rightarrow> configuration \<Rightarrow> string \<Rightarrow> string option \<Rightarrow> cookie_arg list option
     \<Rightarrow> number option \<Rightarrow> proxy_arg option \<Rightarrow> (string \<rightharpoonup> pyval) option
     \<Rightarrow> DefferedForksModel list option \<Rightarrow> request_log" where
  "request_events env conf url cmd cookies max_timeout proxy params forks =
     fst (run_request env conf url cmd cookies max_timeout proxy params forks)"

section \<open>Sample values\<close>

text \<open>
  A request, a response, a solver that returns the response for every attempt, a
  configuration as \<open>server_run\<close> leaves it without debug directories, a validation
  that accepts a value of the field's own type, and an environment in which the primary
  attempt is the first to finish and the identity probe answers in 30 milliseconds. They
  instantiate the theorems below.
\<close>

definition sample_request :: Request where
  "sample_request =
     \<lparr>req_cmd = Some ''get_cookies'', req_url = ''https://x.com/'', req_cookies = [],
      req_max_timeout = 60, req_proxy = None, req_params = None\<rparr>"

definition sample_response :: Response where
  "sample_response =
     \<lparr>resp_message = ''Challenge solved!'', resp_url = ''https://x.com/'',
      resp_cookies = [[''name'' \<mapsto> PStr ''a'', ''value'' \<mapsto> PStr ''b'',
                       ''domain'' \<mapsto> PStr ''x.com'']],
      resp_response = None, resp_user_agent = None\<rparr>"

definition sample_solver :: "solver_init \<Rightarrow> Request \<Rightarrow> Response outcome" where
  "sample_solver init request = Returned sample_response"

definition sample_configuration :: configuration where
  "sample_configuration =
     \<lparr>solver_args = [''disable_gpu'' \<mapsto> PBool False, ''headless'' \<mapsto> PBool False,
                     ''debug_dir'' \<mapsto> PNone, ''challenge_screenshots_dir'' \<mapsto> PNone],
      default_forks = []\<rparr>"

definition sample_parsed_url :: parsed_url where
  "sample_parsed_url =
     \<lparr>url_scheme = Some ''http'', url_auth = None, url_host = Some ''1.2.3.4'',
      url_port = Some 8080, url_path = None, url_query = None, url_fragment = None\<rparr>"

definition sample_validation :: pydantic where
  "sample_validation =
     \<lparr>valid_str = (\<lambda>v. case v of PStr s \<Rightarrow> Some s | _ \<Rightarrow> None),
      valid_int = (\<lambda>v. case v of PInt i \<Rightarrow> Some i | _ \<Rightarrow> None),
      valid_bool = (\<lambda>v. case v of PBool b \<Rightarrow> Some b | _ \<Rightarrow> None),
      valid_float = (\<lambda>v. case v of PFloat x \<Rightarrow> Some x | PInt i \<Rightarrow> Some (real_of_int i)
                        | _ \<Rightarrow> None),
      error_text = (\<lambda>cookie. ''validation error for CookieModel'')\<rparr>"

definition sample_environment :: environment where
  "sample_environment =
     \<lparr>now_start = 0, now_end = 1,
      parse_url = (\<lambda>u. Inr sample_parsed_url),
      uuid4_debug = ''0f8fad5b'', uuid4_screenshots = ''7c9e6679'',
      mkdir = (\<lambda>p. None),
      Solver_solve = sample_solver,
      Solver_get_user_agent =
        (\<lambda>init. Awaitable (Some (3 / 100, Returned ''Mozilla/5.0'')) Stops),
      schedule = [[0]], first_to_raise = IdentityFirst,
      float_repr = (\<lambda>x. ''nan''),
      validation = sample_validation\<rparr>"

section \<open>Properties of the race coordinator\<close>

lemma remove_finished_filter:
  "distinct tf \<Longrightarrow> remove_finished tf fs = filter (\<lambda>t. t \<notin> set fs) tf"
proof (induction fs arbitrary: tf)
  case Nil
  then show ?case by simp
next
  case (Cons f fs)
  have "remove1 f tf = filter (\<lambda>t. t \<noteq> f) tf"
    using Cons.prems by (simp add: distinct_remove1_removeAll removeAll_filter_not_eq) metis
  moreover have "distinct (remove1 f tf)" using Cons.prems by simp
  ultimately show ?case using Cons.IH [of "remove1 f tf"] by (simp add: conj_commute)
qed

lemma wf_schedule_concat_subset:
  "wf_schedule pending sched \<Longrightarrow> set (concat sched) \<subseteq> set pending"
proof (induction sched arbitrary: pending)
  case Nil
  then show ?case by simp
next
  case (Cons fin rest)
  from Cons.prems have "set fin \<subseteq> set pending"
    and "wf_schedule (filter (\<lambda>t. t \<notin> set fin) pending) rest" by simp_all
  with Cons.IH [of "filter (\<lambda>t. t \<notin> set fin) pending"]
  have "set (concat rest) \<subseteq> set (filter (\<lambda>t. t \<notin> set fin) pending)" by blast
  then have "set (concat rest) \<subseteq> set pending" by auto
  with \<open>set fin \<subseteq> set pending\<close> show ?case by simp
qed

text \<open>
  While a task is still outstanding, a wake-up whose finished tasks all failed with an
  instance of \<open>Exception\<close> records every one of those failures, in iteration order,
  and the loop goes on.
\<close>

lemma process_finished_all_fail:
  "task_features st \<noteq> [] \<Longrightarrow>
   \<forall>f\<in>set fs. result f = Raised (exc f) \<and> is_Exception (exc f) \<Longrightarrow>
   process_finished rc result st fs = (None, st\<lparr>exceptions := exceptions st @ map exc fs\<rparr>)"
  by (induction fs arbitrary: st) simp_all

lemma wait_loop_all_fail:
  assumes "distinct (task_features st)"
    and "wf_schedule (task_features st) (sched @ [[i]])"
    and "set (concat (sched @ [[i]])) = set (task_features st)"
    and "\<forall>f\<in>set (task_features st). result f = Raised (exc f) \<and> is_Exception (exc f)"
  shows "\<exists>st'. wait_loop rc result st (sched @ [[i]]) = Some (Raise (exc i), st') \<and>
           to_cancel_tasks st' = [] \<and>
           exceptions st' = exceptions st @ map exc (concat sched @ [i])"
  using assms
proof (induction sched arbitrary: st)
  case Nil
  then have single: "set (task_features st) = {i}" by simp
  have tf: "task_features st = [i]"
  proof (cases "task_features st")
    case Nil
    with single show ?thesis by simp
  next
    case (Cons a as)
    with single have "a = i" "set as \<subseteq> {i}" by auto
    moreover from Cons Nil.prems(1) have "a \<notin> set as" by simp
    ultimately have "as = []" by (cases as) auto
    with Cons \<open>a = i\<close> show ?thesis by simp
  qed
  then show ?case using Nil.prems(4) by simp
next
  case (Cons fin rest)
  let ?tf = "filter (\<lambda>t. t \<notin> set fin) (task_features st)"
  let ?st2 = "st\<lparr>to_cancel_tasks := ?tf, task_features := ?tf\<rparr>"
  let ?st3 = "?st2\<lparr>exceptions := exceptions st @ map exc fin\<rparr>"
  from Cons.prems(2) have fin: "fin \<noteq> []" "set fin \<subseteq> set (task_features st)"
    and wf': "wf_schedule ?tf (rest @ [[i]])" by simp_all
  from fin have ne: "task_features st \<noteq> []" by auto
  from wf_schedule_concat_subset [OF wf'] have sub: "set (concat (rest @ [[i]])) \<subseteq> set ?tf" .
  then have "i \<in> set ?tf" by simp
  then have ne2: "?tf \<noteq> []" by (metis empty_iff empty_set)
  have allf: "\<forall>f\<in>set fin. result f = Raised (exc f) \<and> is_Exception (exc f)"
    using fin(2) Cons.prems(4) by auto
  have pf: "process_finished rc result ?st2 fin = (None, ?st3)"
    using process_finished_all_fail [of ?st2 fin result exc rc] ne2 allf by simp
  have step: "wait_loop rc result st ((fin # rest) @ [[i]]) = wait_loop rc result ?st3 (rest @ [[i]])"
    using ne pf Cons.prems(1) by (simp add: remove_finished_filter Let_def)
  have complete: "set (concat (rest @ [[i]])) = set (task_features ?st3)"
    using sub Cons.prems(3) by auto
  have "\<exists>st'. wait_loop rc result ?st3 (rest @ [[i]]) = Some (Raise (exc i), st') \<and>
           to_cancel_tasks st' = [] \<and>
           exceptions st' = exceptions ?st3 @ map exc (concat rest @ [i])"
    using Cons.IH [of ?st3] Cons.prems(1) wf' complete Cons.prems(4) by simp
  then show ?case using step by simp
qed

text \<open>
  When the coordinator sees the completions one at a time and the failures before it
  are instances of \<open>Exception\<close>, the first success that the predicate accepts ends the
  race: the coordinator returns it with the successes it
  skipped and the failures it recorded before, in the order of completion, and cancels
  exactly the tasks that have not completed. What completes later is never looked at.
\<close>

lemma wait_loop_one_at_a_time:
  assumes "distinct (task_features st)"
    and "distinct (before @ [w])"
    and "set (before @ [w]) \<subseteq> set (task_features st)"
    and "\<forall>f\<in>set before.
           (\<forall>x. result f = Returned x \<longrightarrow> \<not> rc x) \<and>
           (\<forall>e. result f = Raised e \<longrightarrow> is_Exception e)"
    and "result w = Returned r" and "rc r"
  shows "\<exists>st'. wait_loop rc result st (map (\<lambda>f. [f]) (before @ [w]) @ later) =
           Some (Return (Some r)
                   (skipped_results st @ List.map_filter (\<lambda>f. the_result (result f)) before)
                   (exceptions st @ List.map_filter (\<lambda>f. the_exc (result f)) before), st') \<and>
           to_cancel_tasks st' = filter (\<lambda>t. t \<notin> set (before @ [w])) (task_features st) \<and>
           exceptions st' = exceptions st @ List.map_filter (\<lambda>f. the_exc (result f)) before"
  using assms(1-4)
proof (induction before arbitrary: st)
  case Nil
  then have "task_features st \<noteq> []" by auto
  then show ?case using assms(5,6) by (simp add: Let_def List.map_filter_simps)
next
  case (Cons f fs)
  let ?tf = "filter (\<lambda>t. t \<noteq> f) (task_features st)"
  let ?st2 = "st\<lparr>to_cancel_tasks := ?tf, task_features := ?tf\<rparr>"
  from Cons.prems(3) have ne: "task_features st \<noteq> []" by auto
  from Cons.prems(2,3) have w: "w \<in> set ?tf" by auto
  then have ne2: "?tf \<noteq> []" by (metis empty_iff empty_set)
  have rf: "remove_finished (task_features st) [f] = ?tf"
    using remove_finished_filter [OF Cons.prems(1), of "[f]"] by simp
  obtain st3 where pf: "process_finished rc result ?st2 [f] = (None, st3)"
    and tf3: "task_features st3 = ?tf"
    and sk3: "skipped_results st3 =
        skipped_results st @ List.map_filter (\<lambda>f. the_result (result f)) [f]"
    and ex3: "exceptions st3 =
        exceptions st @ List.map_filter (\<lambda>f. the_exc (result f)) [f]"
  proof (cases "result f")
    case (Returned x)
    with Cons.prems(4) have "\<not> rc x" by simp
    with Returned that [of "?st2\<lparr>skipped_results := skipped_results st @ [x]\<rparr>"]
    show ?thesis by (simp add: List.map_filter_simps)
  next
    case (Raised e)
    with Cons.prems(4) have "is_Exception e" by simp
    with Raised ne2 that [of "?st2\<lparr>exceptions := exceptions st @ [e]\<rparr>"]
    show ?thesis by (simp add: List.map_filter_simps)
  qed
  have step: "wait_loop rc result st (map (\<lambda>f. [f]) ((f # fs) @ [w]) @ later) =
      wait_loop rc result st3 (map (\<lambda>f. [f]) (fs @ [w]) @ later)"
    using ne pf rf by (simp add: Let_def del: process_finished.simps remove_finished.simps)
  have d3: "distinct (task_features st3)" using tf3 Cons.prems(1) by simp
  have dfs: "distinct (fs @ [w])" using Cons.prems(2) by simp
  have sub3: "set (fs @ [w]) \<subseteq> set (task_features st3)"
    using tf3 Cons.prems(2,3) by auto
  have rej: "\<forall>f\<in>set fs.
           (\<forall>x. result f = Returned x \<longrightarrow> \<not> rc x) \<and>
           (\<forall>e. result f = Raised e \<longrightarrow> is_Exception e)"
    using Cons.prems(4) by simp
  from Cons.IH [OF d3 dfs sub3 rej] obtain st' where
    run: "wait_loop rc result st3 (map (\<lambda>f. [f]) (fs @ [w]) @ later) =
           Some (Return (Some r)
                   (skipped_results st3 @ List.map_filter (\<lambda>f. the_result (result f)) fs)
                   (exceptions st3 @ List.map_filter (\<lambda>f. the_exc (result f)) fs), st')"
    and cancel: "to_cancel_tasks st' = filter (\<lambda>t. t \<notin> set (fs @ [w])) (task_features st3)"
    and excs: "exceptions st' = exceptions st3 @ List.map_filter (\<lambda>f. the_exc (result f)) fs"
    by blast
  have mf: "List.map_filter g (f # fs) = List.map_filter g [f] @ List.map_filter g fs"
    for g :: "nat \<Rightarrow> 'b option"
    by (simp add: List.map_filter_def)
  have c: "to_cancel_tasks st' = filter (\<lambda>t. t \<notin> set ((f # fs) @ [w])) (task_features st)"
    using cancel tf3 by (simp add: conj_commute)
  have e: "exceptions st' =
      exceptions st @ List.map_filter (\<lambda>f. the_exc (result f)) (f # fs)"
    by (simp only: excs ex3 mf [of "\<lambda>f. the_exc (result f)"] append_assoc)
  have "wait_loop rc result st (map (\<lambda>f. [f]) ((f # fs) @ [w]) @ later) =
      Some (Return (Some r)
              (skipped_results st3 @ List.map_filter (\<lambda>f. the_result (result f)) fs)
              (exceptions st3 @ List.map_filter (\<lambda>f. the_exc (result f)) fs), st')"
    using step run by (rule trans)
  then have "wait_loop rc result st (map (\<lambda>f. [f]) ((f # fs) @ [w]) @ later) =
      Some (Return (Some r)
              (skipped_results st @ List.map_filter (\<lambda>f. the_result (result f)) (f # fs))
              (exceptions st @ List.map_filter (\<lambda>f. the_exc (result f)) (f # fs)), st')"
    by (simp only: sk3 ex3 mf [of "\<lambda>f. the_exc (result f)"]
        mf [of "\<lambda>f. the_result (result f)"] append_assoc)
  with c e show ?case by blast
qed

lemma wait_first_non_exception_one_at_a_time:
  assumes "distinct (before @ [w])"
    and "set (before @ [w]) \<subseteq> {0..<length tasks}"
    and "\<forall>f\<in>set before.
           (\<forall>x. tasks ! f = Returned x \<longrightarrow> \<not> rc x) \<and>
           (\<forall>e. tasks ! f = Raised e \<longrightarrow> is_Exception e)"
    and "tasks ! w = Returned r" and "rc r"
  shows "wait_first_non_exception tasks rc (map (\<lambda>f. [f]) (before @ [w]) @ later) =
           Some \<lparr>race_exit = Return (Some r)
                   (List.map_filter (\<lambda>f. the_result (tasks ! f)) before)
                   (List.map_filter (\<lambda>f. the_exc (tasks ! f)) before),
                 cancelled = filter (\<lambda>t. t \<notin> set (before @ [w])) [0..<length tasks],
                 recorded = List.map_filter (\<lambda>f. the_exc (tasks ! f)) before\<rparr>"
proof -
  let ?st = "\<lparr>task_features = [0..<length tasks], to_cancel_tasks = [],
              skipped_results = [], exceptions = []\<rparr> :: 'a race_state"
  have "distinct (task_features ?st)" by simp
  moreover have "set (before @ [w]) \<subseteq> set (task_features ?st)" using assms(2) by simp
  ultimately obtain st' where
    "wait_loop rc (\<lambda>f. tasks ! f) ?st (map (\<lambda>f. [f]) (before @ [w]) @ later) =
           Some (Return (Some r)
                   (skipped_results ?st @ List.map_filter (\<lambda>f. the_result (tasks ! f)) before)
                   (exceptions ?st @ List.map_filter (\<lambda>f. the_exc (tasks ! f)) before), st')"
    and "to_cancel_tasks st' = filter (\<lambda>t. t \<notin> set (before @ [w])) (task_features ?st)"
    and "exceptions st' = exceptions ?st @ List.map_filter (\<lambda>f. the_exc (tasks ! f)) before"
    using wait_loop_one_at_a_time [of ?st before w "\<lambda>f. tasks ! f" rc r later] assms(1,3,4,5)
    by auto
  then show ?thesis by (simp add: wait_first_non_exception_def)
qed

text \<open>
  C1. The claim: when a task completes successfully and its result satisfies the
  acceptance predicate, the coordinator returns that result with the successes skipped
  and the failures recorded so far. Two tasks, the first failing and the second
  succeeding, are both done when \<open>asyncio.wait\<close> returns, and the failed one comes
  first in the iteration of the finished set: no task is outstanding, so the coordinator
  raises the failure and never looks at the success.
\<close>

theorem wait_first_non_exception_loses_success:
  "wait_first_non_exception
     [Raised (PyExc ''Exception'' ''attempt 0 failed''), Returned ''solved by attempt 1'']
     accept_any [[0, 1]] =
   Some \<lparr>race_exit = Raise (PyExc ''Exception'' ''attempt 0 failed''), cancelled = [],
         recorded = [PyExc ''Exception'' ''attempt 0 failed'']\<rparr>"
  by (simp add: wait_first_non_exception_def accept_any_def)

text \<open>
  C4, as stated, fails in two ways. Two failing tasks that are both done at the same
  wake-up: the coordinator raises the failure it iterates first and never records the
  other one, so the terminal error depends on the iteration order of the finished set
  alone, and not every failure is recorded. And a task that ends with
  \<open>asyncio.CancelledError\<close>, which \<open>except Exception\<close> does not catch: the
  coordinator raises it at once, records nothing and cancels the attempt that is still
  running, whose failure would have been the last.
\<close>

theorem all_fail_terminal_error_counterexample:
  "wait_first_non_exception
     [Raised (PyExc ''Exception'' ''first''), Raised (PyExc ''Exception'' ''second'') :: string outcome]
     accept_any [[0, 1]] =
   Some \<lparr>race_exit = Raise (PyExc ''Exception'' ''first''), cancelled = [],
         recorded = [PyExc ''Exception'' ''first'']\<rparr> \<and>
   wait_first_non_exception
     [Raised (PyExc ''Exception'' ''first''), Raised (PyExc ''Exception'' ''second'') :: string outcome]
     accept_any [[1, 0]] =
   Some \<lparr>race_exit = Raise (PyExc ''Exception'' ''second''), cancelled = [],
         recorded = [PyExc ''Exception'' ''second'']\<rparr> \<and>
   wait_first_non_exception
     [Raised (PyBaseExc ''CancelledError'' []), Raised (PyExc ''Exception'' ''second'') :: string outcome]
     accept_any [[0], [1]] =
   Some \<lparr>race_exit = Raise (PyBaseExc ''CancelledError'' []), cancelled = [1],
         recorded = []\<rparr>"
  by (simp add: wait_first_non_exception_def accept_any_def)

text \<open>
  C4, amended. For every batch in which all attempt tasks fail with an instance of
  \<open>Exception\<close> (\<open>map Raised es\<close>), every acceptance predicate and every schedule that
  completes all tasks and whose final wake-up reports a single finished task \<open>i\<close>: the
  coordinator raises the failure of \<open>i\<close>, the attempt that completed last, after
  recording every failure in the order in which it processed them, and nothing is left
  to cancel. A single-task batch is the case of an empty \<open>sched\<close> and \<open>i = 0\<close>.
\<close>

theorem wait_first_non_exception_all_fail:
  assumes "wf_schedule [0..<length es] (sched @ [[i]])"
    and "set (concat (sched @ [[i]])) = {0..<length es}"
    and "\<forall>e\<in>set es. is_Exception e"
  shows "wait_first_non_exception (map Raised es) return_condition (sched @ [[i]]) =
         Some \<lparr>race_exit = Raise (es ! i), cancelled = [],
               recorded = map (\<lambda>f. es ! f) (concat sched @ [i])\<rparr>"
proof -
  let ?st = "\<lparr>task_features = [0..<length es], to_cancel_tasks = [],
              skipped_results = [], exceptions = []\<rparr> :: 'a race_state"
  have "\<forall>f\<in>set (task_features ?st).
      (map Raised es :: 'a outcome list) ! f = Raised (es ! f) \<and> is_Exception (es ! f)"
    using assms(3) by simp
  with assms(1,2)
    wait_loop_all_fail [of ?st sched i "\<lambda>f. map Raised es ! f" "\<lambda>f. es ! f" return_condition]
  obtain st' where "wait_loop return_condition (\<lambda>f. map Raised es ! f) ?st (sched @ [[i]])
        = Some (Raise (es ! i), st')"
    and "to_cancel_tasks st' = []"
    and "exceptions st' = map (\<lambda>f. es ! f) (concat sched @ [i])"
    by auto
  then show ?thesis by (simp add: wait_first_non_exception_def)
qed

theorem wait_first_non_exception_all_fail_witness:
  "wf_schedule [0..<length [PyExc ''Exception'' ''a'', PyExc ''Exception'' ''b'', PyExc ''Exception'' ''c'']]
     ([[2, 0]] @ [[1]]) \<and>
   is_Exception (PyExc ''Exception'' ''a'') \<and> is_Exception (PyExc ''Exception'' ''b'') \<and>
   is_Exception (PyExc ''Exception'' ''c'') \<and>
   wait_first_non_exception
     (map Raised [PyExc ''Exception'' ''a'', PyExc ''Exception'' ''b'', PyExc ''Exception'' ''c''] :: string outcome list)
     accept_any ([[2, 0]] @ [[1]]) =
   Some \<lparr>race_exit = Raise (PyExc ''Exception'' ''b''), cancelled = [],
         recorded = [PyExc ''Exception'' ''c'', PyExc ''Exception'' ''a'', PyExc ''Exception'' ''b'']\<rparr>"
proof -
  let ?es = "[PyExc ''Exception'' ''a'', PyExc ''Exception'' ''b'', PyExc ''Exception'' ''c'']"
  have wf: "wf_schedule [0..<length ?es] ([[2, 0]] @ [[1]])"
    by (simp add: upt_rec)
  have complete: "set (concat ([[2, 0]] @ [[1::nat]])) = {0..<length ?es}"
    by auto
  have caught: "\<forall>e\<in>set ?es. is_Exception e" by simp
  show ?thesis
    using wf caught wait_first_non_exception_all_fail [OF wf complete caught, of accept_any]
    by simp
qed

section \<open>Properties of the fork plan and of the attempts\<close>

lemma group_tasks_map: "group_tasks c n = map DefferedTask [c..<c + n]"
proof (induction n arbitrary: c)
  case 0
  then show ?case by simp
next
  case (Suc n)
  have "[c..<c + Suc n] = c # [Suc c..<Suc c + n]" by (simp add: upt_rec)
  with Suc [of "Suc c"] show ?case by simp
qed

lemma length_fork_tasks: "length (fork_tasks c fs) = (\<Sum>g\<leftarrow>fs. nat (fm_forks g))"
  by (induction fs arbitrary: c) (simp_all add: group_tasks_map)

lemma fork_tasks_append:
  "fork_tasks c (fs @ gs) = fork_tasks c fs @ fork_tasks (c + length (fork_tasks c fs)) gs"
  by (induction fs arbitrary: c) (simp_all add: group_tasks_map add.assoc)

lemma fork_i_fork_tasks: "map fork_i (fork_tasks c fs) = [c..<c + length (fork_tasks c fs)]"
proof (induction fs arbitrary: c)
  case Nil
  then show ?case by simp
next
  case (Cons g fs)
  let ?n = "nat (fm_forks g)"
  have "map fork_i (group_tasks c ?n) = [c..<c + ?n]"
    by (simp add: group_tasks_map comp_def map_idI)
  moreover have "[c..<c + ?n] @ [c + ?n..<c + ?n + length (fork_tasks (c + ?n) fs)]
      = [c..<c + (?n + length (fork_tasks (c + ?n) fs))]"
    by (metis add.assoc le_add1 upt_add_eq_append)
  ultimately show ?case using Cons [of "c + ?n"] by (simp add: group_tasks_map)
qed

lemma sum_max_forks:
  "int (\<Sum>g\<leftarrow>fs. nat (fm_forks g)) = (\<Sum>g\<leftarrow>fs. max 0 (fm_forks g))"
  by (induction fs) simp_all


lemma fork_tasks_map: "fork_tasks c fs = map DefferedTask [c..<c + length (fork_tasks c fs)]"
proof (induction fs arbitrary: c)
  case Nil
  then show ?case by simp
next
  case (Cons g fs)
  let ?n = "nat (fm_forks g)"
  let ?m = "length (fork_tasks (c + ?n) fs)"
  have "[c..<c + ?n] @ [c + ?n..<c + ?n + ?m] = [c..<c + (?n + ?m)]"
    by (metis add.assoc le_add1 upt_add_eq_append)
  then have "map DefferedTask [c..<c + ?n] @ map DefferedTask [c + ?n..<c + ?n + ?m]
      = map DefferedTask [c..<c + (?n + ?m)]"
    by (metis map_append)
  with Cons [of "c + ?n"] show ?case by (simp add: group_tasks_map)
qed

lemma solve_tasks_shape:
  "solve_tasks forks = SolveTask 0 # map DefferedTask [1..<length (solve_tasks forks)]"
  using fork_tasks_map [of 1 forks] by (simp add: solve_tasks_def)

lemma solve_tasks_nth:
  "0 < i \<Longrightarrow> i < length (solve_tasks forks) \<Longrightarrow> solve_tasks forks ! i = DefferedTask i"
proof -
  assume i: "0 < i" "i < length (solve_tasks forks)"
  let ?n = "length (solve_tasks forks)"
  have "solve_tasks forks ! i = (SolveTask 0 # map DefferedTask [1..<?n]) ! i"
    using solve_tasks_shape [of forks] by simp
  also have "\<dots> = map DefferedTask [1..<?n] ! (i - 1)" using i by (simp add: nth_Cons')
  also have "\<dots> = DefferedTask ([1..<?n] ! (i - 1))" using i by (simp del: upt_Suc)
  also have "[1..<?n] ! (i - 1) = i" using i by (simp del: upt_Suc)
  finally show ?thesis .
qed

lemma solve_tasks_forks_nonempty: "1 < length (solve_tasks forks) \<Longrightarrow> forks \<noteq> []"
  by (auto simp: solve_tasks_def)

lemma solve_unexpected_keyword:
  "solve S req (attempt_kwargs proxy args i @ [(''fill_user_agent'', KwBool False)]) =
   ([], Raised (PyExc ''TypeError''
      (''solve() got an unexpected keyword argument '' @ quoted ''fill_user_agent'')))"
  by (simp add: solve_def attempt_kwargs_def solve_parameters_def)

lemma solve_primary:
  "solve S req (attempt_kwargs proxy args i) =
   ([SolverRun \<lparr>init_proxy = Some proxy, init_log_prefix = log_prefix i, init_kwargs = args\<rparr>],
    S \<lparr>init_proxy = Some proxy, init_log_prefix = log_prefix i, init_kwargs = args\<rparr> req)"
  by (simp add: solve_def attempt_kwargs_def solve_parameters_def Let_def)

lemma run_deffered_task:
  "forks \<noteq> [] \<Longrightarrow>
   run_task S req proxy args (final_forks_model forks) (DefferedTask i) =
   ((if fm_delay (last forks) > 0 then [Sleep (fm_delay (last forks))] else []),
    Raised (PyExc ''TypeError''
      (''solve() got an unexpected keyword argument '' @ quoted ''fill_user_agent'')))"
  by (simp add: final_forks_model_def deffered_call_def solve_unexpected_keyword)

lemma process_finished_winner:
  "process_finished rc result st fs = (Some (Return (Some r) sk ex), st') \<Longrightarrow>
   \<exists>f\<in>set fs. result f = Returned r"
proof (induction fs arbitrary: st)
  case Nil
  then show ?case by simp
next
  case (Cons f fs)
  show ?case
  proof (cases "result f")
    case (Returned res)
    show ?thesis
    proof (cases "rc res")
      case True
      with Returned Cons.prems show ?thesis by simp
    next
      case False
      with Returned Cons.prems Cons.IH show ?thesis by auto
    qed
  next
    case (Raised e)
    show ?thesis
    proof (cases "is_Exception e \<and> task_features st \<noteq> []")
      case True
      with Raised Cons.prems Cons.IH show ?thesis by (auto simp: Let_def)
    next
      case False
      with Raised Cons.prems show ?thesis by (auto simp: Let_def split: if_splits)
    qed
  qed
qed

lemma wait_loop_winner:
  "wait_loop rc result st sched = Some (Return (Some r) sk ex, st') \<Longrightarrow>
   \<exists>f\<in>set (concat sched). result f = Returned r"
proof (induction sched arbitrary: st)
  case Nil
  then show ?case by (simp split: if_splits)
next
  case (Cons fin rest)
  let ?st2 = "st\<lparr>to_cancel_tasks := filter (\<lambda>t. t \<notin> set fin) (task_features st),
                task_features := remove_finished (task_features st) fin\<rparr>"
  from Cons.prems have ne: "task_features st \<noteq> []" by (simp split: if_splits)
  obtain ex' st3 where pf: "process_finished rc result ?st2 fin = (ex', st3)"
    by (cases "process_finished rc result ?st2 fin") auto
  show ?case
  proof (cases ex')
    case None
    with pf ne Cons.prems have "wait_loop rc result st3 rest = Some (Return (Some r) sk ex, st')"
      by (simp add: Let_def)
    from Cons.IH [OF this] show ?thesis by auto
  next
    case (Some e)
    with pf ne Cons.prems have "process_finished rc result ?st2 fin = (Some (Return (Some r) sk ex), st')"
      by (simp add: Let_def)
    from process_finished_winner [OF this] show ?thesis by auto
  qed
qed

lemma wait_first_non_exception_winner:
  assumes "wf_schedule [0..<length tasks] sched"
    and "wait_first_non_exception tasks rc sched = Some run"
    and "race_exit run = Return (Some r) sk ex"
  shows "\<exists>f<length tasks. tasks ! f = Returned r"
proof -
  let ?st = "\<lparr>task_features = [0..<length tasks], to_cancel_tasks = [],
              skipped_results = [], exceptions = []\<rparr> :: 'a race_state"
  from assms(2,3) obtain st' where
    "wait_loop rc (\<lambda>f. tasks ! f) ?st sched = Some (Return (Some r) sk ex, st')"
    by (auto simp: wait_first_non_exception_def split: option.splits)
  from wait_loop_winner [OF this] obtain f where f: "f \<in> set (concat sched)" "tasks ! f = Returned r"
    by auto
  from wf_schedule_concat_subset [OF assms(1)] f(1) have "f < length tasks" by auto
  with f(2) show ?thesis by auto
qed

text \<open>
  The number of tasks of a plan, whatever the counts: a group whose \<open>forks\<close> is below 1
  adds none.
\<close>

lemma length_solve_tasks:
  "int (length (solve_tasks forks)) = 1 + (\<Sum>g\<leftarrow>forks. max 0 (fm_forks g))"
  using sum_max_forks [of forks] by (simp add: solve_tasks_def length_fork_tasks)

lemma sum_max_nonneg:
  "\<forall>g\<in>set forks. 0 \<le> fm_forks g \<Longrightarrow>
   (\<Sum>g\<leftarrow>forks. max 0 (fm_forks g)) = (\<Sum>g\<leftarrow>forks. fm_forks g)"
  by (induction forks) simp_all

text \<open>
  C5. For every list of fork groups whose counts are not negative (a fork group of the
  specification has a positive count), the plan has \<open>1 + \<Sum> forks\<close> tasks. The first
  task is the primary one with index 0 and every other task is a deferred one whose
  index is its position in the plan, so the indices are \<open>0, 1, 2, \<dots>\<close> without
  repetition. The members of a group \<open>g\<close> stand together, after all tasks of the groups
  before it and before all tasks of the groups after it. The keywords of an attempt
  other than \<open>log_prefix\<close> do not depend on the index, and \<open>log_prefix\<close> is
  \<open>"fork #" + str(fork_i) + ", "\<close>.
\<close>

theorem solve_tasks_plan:
  assumes "\<forall>g\<in>set forks. 0 \<le> fm_forks g"
  shows "int (length (solve_tasks forks)) = 1 + (\<Sum>g\<leftarrow>forks. fm_forks g) \<and>
   solve_tasks forks = SolveTask 0 # map DefferedTask [1..<length (solve_tasks forks)] \<and>
   map fork_i (solve_tasks forks) = [0..<length (solve_tasks forks)] \<and>
   distinct (map fork_i (solve_tasks forks)) \<and>
   (\<forall>before g after. forks = before @ g # after \<longrightarrow>
      solve_tasks forks =
        solve_tasks before @
        map DefferedTask [length (solve_tasks before)..<
                          length (solve_tasks before) + nat (fm_forks g)] @
        fork_tasks (length (solve_tasks before) + nat (fm_forks g)) after) \<and>
   filter (\<lambda>kv. fst kv \<noteq> ''log_prefix'') (attempt_kwargs proxy args i) =
     filter (\<lambda>kv. fst kv \<noteq> ''log_prefix'') (attempt_kwargs proxy args j) \<and>
   map_of (attempt_kwargs proxy args i) ''log_prefix'' =
     Some (KwLogPrefix (''fork #'' @ str_nat i @ '', ''))"
proof -
  have count: "int (length (solve_tasks forks)) = 1 + (\<Sum>g\<leftarrow>forks. fm_forks g)"
    using length_solve_tasks [of forks] sum_max_nonneg [OF assms] by simp
  have shape: "solve_tasks forks = SolveTask 0 # map DefferedTask [1..<length (solve_tasks forks)]"
    by (rule solve_tasks_shape)
  have idx: "map fork_i (solve_tasks forks) = [0..<length (solve_tasks forks)]"
  proof -
    let ?n = "length (fork_tasks 1 forks)"
    have tasks: "map fork_i (fork_tasks 1 forks) = [Suc 0..<Suc ?n]"
      using fork_i_fork_tasks [of 1 forks] by simp
    have "[0..<Suc ?n] = 0 # [Suc 0..<Suc ?n]"
      by (rule upt_conv_Cons) simp
    with tasks have "map fork_i (SolveTask 0 # fork_tasks 1 forks) = [0..<Suc ?n]"
      by simp
    then show ?thesis by (simp add: solve_tasks_def)
  qed
  have dist: "distinct (map fork_i (solve_tasks forks))"
    by (simp only: idx distinct_upt)
  have order: "\<forall>before g after. forks = before @ g # after \<longrightarrow>
      solve_tasks forks =
        solve_tasks before @
        map DefferedTask [length (solve_tasks before)..<
                          length (solve_tasks before) + nat (fm_forks g)] @
        fork_tasks (length (solve_tasks before) + nat (fm_forks g)) after"
    by (simp add: solve_tasks_def fork_tasks_append group_tasks_map)
  have kw: "filter (\<lambda>kv. fst kv \<noteq> ''log_prefix'') (attempt_kwargs proxy args i) =
     filter (\<lambda>kv. fst kv \<noteq> ''log_prefix'') (attempt_kwargs proxy args j)"
    by (simp add: attempt_kwargs_def)
  have lp: "map_of (attempt_kwargs proxy args i) ''log_prefix'' =
     Some (KwLogPrefix (''fork #'' @ str_nat i @ '', ''))"
    by (simp add: attempt_kwargs_def log_prefix_def)
  from count shape idx dist order kw lp show ?thesis by blast
qed

theorem solve_tasks_plan_witness:
  "0 \<le> fm_forks \<lparr>fm_forks = 3, fm_delay = 5\<rparr> \<and>
   0 \<le> fm_forks \<lparr>fm_forks = 2, fm_delay = 1\<rparr> \<and>
   int (length (solve_tasks [\<lparr>fm_forks = 3, fm_delay = 5\<rparr>, \<lparr>fm_forks = 2, fm_delay = 1\<rparr>])) =
     1 + (3 + 2) \<and>
   solve_tasks [\<lparr>fm_forks = 3, fm_delay = 5\<rparr>, \<lparr>fm_forks = 2, fm_delay = 1\<rparr>] =
     [SolveTask 0, DefferedTask 1, DefferedTask 2, DefferedTask 3, DefferedTask 4,
      DefferedTask 5] \<and>
   solve_tasks [\<lparr>fm_forks = 3, fm_delay = 5\<rparr>, \<lparr>fm_forks = 2, fm_delay = 1\<rparr>] =
     solve_tasks [\<lparr>fm_forks = 3, fm_delay = 5\<rparr>] @
     map DefferedTask [length (solve_tasks [\<lparr>fm_forks = 3, fm_delay = 5\<rparr>])..<
                       length (solve_tasks [\<lparr>fm_forks = 3, fm_delay = 5\<rparr>]) + nat 2] @
     fork_tasks (length (solve_tasks [\<lparr>fm_forks = 3, fm_delay = 5\<rparr>]) + nat 2) []"
proof -
  let ?g1 = "\<lparr>fm_forks = 3, fm_delay = 5\<rparr>"
  let ?g2 = "\<lparr>fm_forks = 2, fm_delay = 1\<rparr>"
  have nonneg: "\<forall>g\<in>set [?g1, ?g2]. 0 \<le> fm_forks g" by simp
  note plan = solve_tasks_plan [OF nonneg]
  have len: "int (length (solve_tasks [?g1, ?g2])) = 1 + (3 + 2)"
    using plan [THEN conjunct1] by simp
  then have n: "length (solve_tasks [?g1, ?g2]) = 6" by simp
  have shape: "solve_tasks [?g1, ?g2] =
     [SolveTask 0, DefferedTask 1, DefferedTask 2, DefferedTask 3, DefferedTask 4,
      DefferedTask 5]"
    using plan [THEN conjunct2, THEN conjunct1] by (simp add: n upt_rec)
  have "\<forall>before g after. [?g1, ?g2] = before @ g # after \<longrightarrow>
      solve_tasks [?g1, ?g2] =
        solve_tasks before @
        map DefferedTask [length (solve_tasks before)..<
                          length (solve_tasks before) + nat (fm_forks g)] @
        fork_tasks (length (solve_tasks before) + nat (fm_forks g)) after"
    using plan [THEN conjunct2, THEN conjunct2, THEN conjunct2, THEN conjunct2, THEN conjunct1] .
  then have "[?g1, ?g2] = [?g1] @ ?g2 # [] \<longrightarrow>
      solve_tasks [?g1, ?g2] =
        solve_tasks [?g1] @
        map DefferedTask [length (solve_tasks [?g1])..<
                          length (solve_tasks [?g1]) + nat (fm_forks ?g2)] @
        fork_tasks (length (solve_tasks [?g1]) + nat (fm_forks ?g2)) []"
    by blast
  then have order: "solve_tasks [?g1, ?g2] =
        solve_tasks [?g1] @
        map DefferedTask [length (solve_tasks [?g1])..<length (solve_tasks [?g1]) + nat 2] @
        fork_tasks (length (solve_tasks [?g1]) + nat 2) []"
    by simp
  from nonneg len shape order show ?thesis by simp
qed

text \<open>
  The deferred scheduler itself: with a positive delay the run starts with one
  suspension of exactly that length and goes on as the inner task does; otherwise it is
  the run of the inner task.
\<close>

lemma deffered_call_delay:
  "task () = (events, res) \<Longrightarrow>
   deffered_call task timeout =
     (if timeout > 0 then (Sleep timeout # events, res) else (events, res))"
  by (simp add: deffered_call_def)

text \<open>
  C6. The claim: all members of a fork group are deferred by the delay of their group.
  With a group of one fork after 5 seconds and a group of one fork after 10 seconds, the
  member of the first group (task 1) sleeps 10 seconds, not 5: its lambda reads
  \<open>forks_model.delay\<close> when the coordinator calls it, and \<open>forks_model\<close> is the last
  group by then.
\<close>

theorem deffered_task_takes_last_group_delay:
  "solve_tasks [\<lparr>fm_forks = 1, fm_delay = 5\<rparr>, \<lparr>fm_forks = 1, fm_delay = 10\<rparr>] =
     [SolveTask 0, DefferedTask 1, DefferedTask 2] \<and>
   fst (attempt_runs S req proxy args
          [\<lparr>fm_forks = 1, fm_delay = 5\<rparr>, \<lparr>fm_forks = 1, fm_delay = 10\<rparr>] ! 1) = [Sleep 10]"
  by (simp add: attempt_runs_def solve_tasks_def final_forks_model_def deffered_call_def
      solve_unexpected_keyword)

text \<open>
  C10. Every deferred task of a plan (every position after the first) does nothing but
  sleep and raise: when the delay that its lambda reads at the call is positive it
  suspends for that delay, and then, in either case, the call of \<open>solve\<close> raises the
  \<open>TypeError\<close> of the keyword \<open>fill_user_agent\<close> before any solver is started. The
  delay is that of the last group of the request (see C6), the task's own group when
  the request has one group. And whenever the coordinator, run on the plan's tasks with
  the default predicate, returns a result, that result is what the primary attempt
  (position 0) returned.
\<close>

theorem deffered_attempts_fail:
  assumes "wf_schedule [0..<length (solve_tasks forks)] sched"
  shows "(\<forall>i. 0 < i \<and> i < length (solve_tasks forks) \<longrightarrow>
            attempt_runs S req proxy args forks ! i =
              ((if fm_delay (last forks) > 0 then [Sleep (fm_delay (last forks))] else []),
               Raised (PyExc ''TypeError''
                 (''solve() got an unexpected keyword argument '' @
                  quoted ''fill_user_agent'')))) \<and>
         (\<forall>i g. forks = [g] \<and> 0 < i \<and> i < length (solve_tasks forks) \<and> 0 < fm_delay g \<longrightarrow>
            fst (attempt_runs S req proxy args forks ! i) = [Sleep (fm_delay g)]) \<and>
         (\<forall>run r sk ex.
            wait_first_non_exception (map snd (attempt_runs S req proxy args forks))
              accept_any sched = Some run \<and>
            race_exit run = Return (Some r) sk ex \<longrightarrow>
            snd (attempt_runs S req proxy args forks ! 0) = Returned r)"
proof -
  let ?runs = "attempt_runs S req proxy args forks"
  let ?err = "PyExc ''TypeError''
                (''solve() got an unexpected keyword argument '' @ quoted ''fill_user_agent'')"
  have len: "length ?runs = length (solve_tasks forks)" by (simp add: attempt_runs_def)
  have deferred: "?runs ! i =
      ((if fm_delay (last forks) > 0 then [Sleep (fm_delay (last forks))] else []), Raised ?err)"
    if "0 < i" "i < length (solve_tasks forks)" for i
  proof -
    from that have nonempty: "forks \<noteq> []" using solve_tasks_forks_nonempty [of forks] by simp
    from that have "?runs ! i =
        run_task S req proxy args (final_forks_model forks) (solve_tasks forks ! i)"
      by (simp add: attempt_runs_def)
    also from that have "solve_tasks forks ! i = DefferedTask i"
      by (rule solve_tasks_nth)
    also have "run_task S req proxy args (final_forks_model forks) (DefferedTask i) =
        ((if fm_delay (last forks) > 0 then [Sleep (fm_delay (last forks))] else []), Raised ?err)"
      by (rule run_deffered_task [OF nonempty])
    finally show ?thesis .
  qed
  have part1: "\<forall>i. 0 < i \<and> i < length (solve_tasks forks) \<longrightarrow>
      ?runs ! i =
        ((if fm_delay (last forks) > 0 then [Sleep (fm_delay (last forks))] else []), Raised ?err)"
    using deferred by simp
  have part2: "\<forall>i g. forks = [g] \<and> 0 < i \<and> i < length (solve_tasks forks) \<and> 0 < fm_delay g \<longrightarrow>
      fst (?runs ! i) = [Sleep (fm_delay g)]"
    using deferred by auto
  have part3: "snd (?runs ! 0) = Returned r"
    if run: "wait_first_non_exception (map snd ?runs) accept_any sched = Some run"
      and ret: "race_exit run = Return (Some r) sk ex" for run r sk ex
  proof -
    from assms len have wf: "wf_schedule [0..<length (map snd ?runs)] sched" by simp
    from wait_first_non_exception_winner [OF wf run ret]
    obtain f where f: "f < length ?runs" "map snd ?runs ! f = Returned r" by auto
    then have res: "snd (?runs ! f) = Returned r" by simp
    have "f = 0"
    proof (rule ccontr)
      assume "f \<noteq> 0"
      with f(1) len deferred [of f] have "snd (?runs ! f) = Raised ?err" by simp
      with res show False by simp
    qed
    with res show ?thesis by simp
  qed
  from part1 part2 part3 show ?thesis by blast
qed

theorem deffered_attempts_fail_witness:
  "wf_schedule [0..<length (solve_tasks [\<lparr>fm_forks = 2, fm_delay = 5\<rparr>])] [[0]] \<and>
   attempt_runs sample_solver sample_request None Map.empty
          [\<lparr>fm_forks = 2, fm_delay = 5\<rparr>] ! 1 =
     ([Sleep 5], Raised (PyExc ''TypeError''
       (''solve() got an unexpected keyword argument '' @ quoted ''fill_user_agent''))) \<and>
   fst (attempt_runs sample_solver sample_request None Map.empty
          [\<lparr>fm_forks = 2, fm_delay = 5\<rparr>] ! 2) = [Sleep 5] \<and>
   wait_first_non_exception
     (map snd (attempt_runs sample_solver sample_request None Map.empty
                 [\<lparr>fm_forks = 2, fm_delay = 5\<rparr>]))
     accept_any [[0]] =
     Some \<lparr>race_exit = Return (Some sample_response) [] [], cancelled = [1, 2], recorded = []\<rparr> \<and>
   snd (attempt_runs sample_solver sample_request None Map.empty
          [\<lparr>fm_forks = 2, fm_delay = 5\<rparr>] ! 0) = Returned sample_response"
proof -
  let ?g = "\<lparr>fm_forks = 2, fm_delay = 5\<rparr>"
  let ?forks = "[?g]"
  let ?runs = "attempt_runs sample_solver sample_request None Map.empty ?forks"
  let ?err = "PyExc ''TypeError''
                (''solve() got an unexpected keyword argument '' @ quoted ''fill_user_agent'')"
  have tasks: "solve_tasks ?forks = [SolveTask 0, DefferedTask 1, DefferedTask 2]"
    by (simp add: solve_tasks_def group_tasks_map upt_rec)
  have wf: "wf_schedule [0..<length (solve_tasks ?forks)] [[0]]"
    by (simp add: tasks upt_rec)
  have runs: "map snd ?runs = [Returned sample_response, Raised ?err, Raised ?err]"
    by (simp add: attempt_runs_def tasks final_forks_model_def deffered_call_def
        solve_unexpected_keyword solve_primary sample_solver_def)
  have race: "wait_first_non_exception (map snd ?runs) accept_any [[0]] =
      Some \<lparr>race_exit = Return (Some sample_response) [] [], cancelled = [1, 2], recorded = []\<rparr>"
    by (simp add: runs wait_first_non_exception_def accept_any_def upt_rec)
  note inst = deffered_attempts_fail [OF wf, of sample_solver sample_request None Map.empty]
  from inst have fail: "?runs ! 1 = ([Sleep 5], Raised ?err)"
    by (simp add: tasks)
  from inst have single: "\<And>i. 0 < i \<Longrightarrow> i < 3 \<Longrightarrow> fst (?runs ! i) = [Sleep 5]"
    by (simp add: tasks)
  from inst have win: "\<And>run r sk ex.
        wait_first_non_exception (map snd ?runs) accept_any [[0]] = Some run
        \<Longrightarrow> race_exit run = Return (Some r) sk ex \<Longrightarrow> snd (?runs ! 0) = Returned r"
    by (simp add: tasks)
  from single [of 2] have two: "fst (?runs ! 2) = [Sleep 5]" by simp
  from win [OF race] have "snd (?runs ! 0) = Returned sample_response" by simp
  with wf fail two race show ?thesis by simp
qed

section \<open>Properties of the request pipeline\<close>

lemma gather_returns:
  "gather first race identity = Some (Inr (solve_response, ua)) \<Longrightarrow>
   \<exists>run sk ex. race = Some run \<and> race_exit run = Return solve_response sk ex \<and>
     identity = Some (Returned ua)"
  by (auto simp: gather_def split: option.splits race_exit.splits outcome.splits)

text \<open>
  When the identity fetch has raised, \<open>asyncio.gather\<close> raises: the exception of the
  identity fetch, or the one with which the coordinator ended.
\<close>

lemma gather_identity_raised:
  "identity = Some (Raised e) \<Longrightarrow>
   \<exists>e'. gather first race identity = Some (Inl e') \<and>
     (e' = e \<or> (\<exists>run. race = Some run \<and> race_exit run = Raise e'))"
  by (auto simp: gather_def split: option.splits race_exit.splits gather_first.splits)

lemma gather_identity_first:
  "identity = Some (Raised e) \<Longrightarrow> gather IdentityFirst race identity = Some (Inl e)"
  by (auto simp: gather_def split: option.splits race_exit.splits)

text \<open>
  What a successful \<open>CookieModel(**cookie)\<close> holds: the three mandatory values as
  pydantic stores them, and for each optional field its default when the key is absent,
  \<open>None\<close> when the key holds \<open>None\<close>, and what pydantic stores otherwise.
\<close>

lemma CookieModel_init_fields:
  assumes "CookieModel_init pd d = Inr c"
  shows "(case d ''name'' of None \<Rightarrow> None | Some x \<Rightarrow> valid_str pd x) = Some (cookie_name c)"
    and "(case d ''value'' of None \<Rightarrow> None | Some x \<Rightarrow> valid_str pd x) = Some (cookie_value c)"
    and "(case d ''domain'' of None \<Rightarrow> None | Some x \<Rightarrow> valid_str pd x) = Some (cookie_domain c)"
    and "cookie_port c =
           (case d ''port'' of None \<Rightarrow> None | Some PNone \<Rightarrow> None | Some x \<Rightarrow> valid_int pd x)"
    and "cookie_path c =
           (case d ''path'' of None \<Rightarrow> Some ''/'' | Some PNone \<Rightarrow> None
            | Some x \<Rightarrow> valid_str pd x)"
    and "cookie_secure c =
           (case d ''secure'' of None \<Rightarrow> Some True | Some PNone \<Rightarrow> None
            | Some x \<Rightarrow> valid_bool pd x)"
    and "cookie_expires c =
           (case d ''expires'' of None \<Rightarrow> None | Some PNone \<Rightarrow> None
            | Some x \<Rightarrow> valid_float pd x)"
proof -
  from assms obtain n v dm po pa se ex where
    n: "required_field (valid_str pd) (d ''name'') = Some n"
    and v: "required_field (valid_str pd) (d ''value'') = Some v"
    and dm: "required_field (valid_str pd) (d ''domain'') = Some dm"
    and po: "optional_field (valid_int pd) None (d ''port'') = Some po"
    and pa: "optional_field (valid_str pd) (Some ''/'') (d ''path'') = Some pa"
    and se: "optional_field (valid_bool pd) (Some True) (d ''secure'') = Some se"
    and ex: "optional_field (valid_float pd) None (d ''expires'') = Some ex"
    and c: "c = \<lparr>cookie_name = n, cookie_value = v, cookie_domain = dm, cookie_port = po,
                cookie_path = pa, cookie_secure = se, cookie_expires = ex\<rparr>"
    by (auto simp: CookieModel_init_def split: option.splits bind_splits)
  have opt: "y = (case g of None \<Rightarrow> dflt | Some PNone \<Rightarrow> None | Some x \<Rightarrow> valid x)"
    if "optional_field valid dflt g = Some y"
    for valid :: "pyval \<Rightarrow> 'b option" and dflt g y
    using that by (auto simp: optional_field_def split: option.splits pyval.splits)
  from n c show "(case d ''name'' of None \<Rightarrow> None | Some x \<Rightarrow> valid_str pd x) = Some (cookie_name c)"
    by (simp add: required_field_def)
  from v c show "(case d ''value'' of None \<Rightarrow> None | Some x \<Rightarrow> valid_str pd x) = Some (cookie_value c)"
    by (simp add: required_field_def)
  from dm c show "(case d ''domain'' of None \<Rightarrow> None | Some x \<Rightarrow> valid_str pd x) = Some (cookie_domain c)"
    by (simp add: required_field_def)
  from opt [OF po] c show "cookie_port c =
           (case d ''port'' of None \<Rightarrow> None | Some PNone \<Rightarrow> None | Some x \<Rightarrow> valid_int pd x)"
    by simp
  from opt [OF pa] c show "cookie_path c =
           (case d ''path'' of None \<Rightarrow> Some ''/'' | Some PNone \<Rightarrow> None
            | Some x \<Rightarrow> valid_str pd x)"
    by simp
  from opt [OF se] c show "cookie_secure c =
           (case d ''secure'' of None \<Rightarrow> Some True | Some PNone \<Rightarrow> None
            | Some x \<Rightarrow> valid_bool pd x)"
    by simp
  from opt [OF ex] c show "cookie_expires c =
           (case d ''expires'' of None \<Rightarrow> None | Some PNone \<Rightarrow> None
            | Some x \<Rightarrow> valid_float pd x)"
    by simp
qed

text \<open>
  A dictionary with the three mandatory keys alone, each holding a string that pydantic
  stores as it is, gives the cookie with the defaults.
\<close>

lemma CookieModel_init_defaults:
  assumes "valid_str pd (PStr n) = Some n" and "valid_str pd (PStr v) = Some v"
    and "valid_str pd (PStr dm) = Some dm"
  shows "CookieModel_init pd
           [''name'' \<mapsto> PStr n, ''value'' \<mapsto> PStr v, ''domain'' \<mapsto> PStr dm] =
         Inr \<lparr>cookie_name = n, cookie_value = v, cookie_domain = dm, cookie_port = None,
              cookie_path = Some ''/'', cookie_secure = Some True, cookie_expires = None\<rparr>"
  using assms by (simp add: CookieModel_init_def required_field_def optional_field_def)

lemma convert_cookies_each:
  "convert_cookies pd ds = Inr cs \<Longrightarrow> list_all2 (\<lambda>d c. CookieModel_init pd d = Inr c) ds cs"
proof (induction ds arbitrary: cs)
  case Nil
  then show ?case by simp
next
  case (Cons d ds)
  from Cons.prems obtain m ms where "CookieModel_init pd d = Inr m"
    "convert_cookies pd ds = Inr ms" "cs = m # ms"
    by (auto split: sum.splits)
  with Cons.IH [of ms] show ?case by simp
qed

lemma assemble_returns:
  "assemble env solve_response ua = Inr r \<Longrightarrow>
   \<exists>res cs. solve_response = Some res \<and>
     convert_cookies (validation env) (resp_cookies res) = Inr cs \<and>
     r = \<lparr>status = ''ok'', message = resp_message res,
          startTimestamp = now_start env, endTimestamp = now_end env,
          solution = Some \<lparr>sol_status = 200, sol_url = resp_url res, sol_cookies = cs,
            sol_userAgent = Some ua, sol_response = resp_response res\<rparr>\<rparr>"
  by (auto simp: assemble_def Let_def split: option.splits sum.splits)

text \<open>The request, once the proxy has been normalised, and the body, once prepared.\<close>

lemma process_proxy_raises:
  "adapt_proxy (parse_url env) proxy = Inl e \<Longrightarrow>
   process_solve_request env conf url cmd cookies max_timeout proxy params forks = Escapes e"
  by (simp add: process_solve_request_def run_request_def)

lemma process_after_proxy:
  "adapt_proxy (parse_url env) proxy = Inr proxy' \<Longrightarrow>
   process_solve_request env conf url cmd cookies max_timeout proxy params forks =
     (case snd (try_body env conf url cmd cookies max_timeout proxy' params forks) of
        None \<Rightarrow> Hangs
      | Some (Inl e) \<Rightarrow> if is_Exception e then Responds (error_response env e) else Escapes e
      | Some (Inr response) \<Rightarrow> Responds response)"
  by (simp add: process_solve_request_def run_request_def
      split: prod.splits option.splits sum.splits)

lemma request_events_after_proxy:
  "adapt_proxy (parse_url env) proxy = Inr proxy' \<Longrightarrow>
   request_events env conf url cmd cookies max_timeout proxy params forks =
     fst (try_body env conf url cmd cookies max_timeout proxy' params forks)"
  by (simp add: request_events_def run_request_def
      split: prod.splits option.splits sum.splits)

lemma try_body_prepared:
  assumes "prepare env conf url cmd cookies max_timeout proxy' params = Inr (req, args)"
  shows "snd (try_body env conf url cmd cookies max_timeout proxy' params forks) =
     (case gather (first_to_raise env)
             (wait_first_non_exception
                (map snd (attempt_runs (Solver_solve env) req proxy' args
                   (case forks of None \<Rightarrow> default_forks conf | Some fs \<Rightarrow> fs)))
                accept_any (schedule env))
             (snd (get_user_agent (float_repr env) (Solver_get_user_agent env) args max_timeout)) of
        None \<Rightarrow> None
      | Some (Inl e) \<Rightarrow> Some (Inl e)
      | Some (Inr (solve_response, user_agent)) \<Rightarrow> Some (assemble env solve_response user_agent))"
    and "fst (try_body env conf url cmd cookies max_timeout proxy' params forks) =
     \<lparr>attempt_events = map fst (attempt_runs (Solver_solve env) req proxy' args
          (case forks of None \<Rightarrow> default_forks conf | Some fs \<Rightarrow> fs)),
      identity_events =
        fst (get_user_agent (float_repr env) (Solver_get_user_agent env) args max_timeout)\<rparr>"
  using assms by (simp_all add: try_body_def Let_def)

text \<open>
  Inside the \<open>try\<close> the handler is \<open>except Exception\<close>: once the proxy has been
  normalised, an exception leaves the request only when it is no instance of
  \<open>Exception\<close>, and a failure of the body that is one becomes the envelope of an
  error whose message is \<open>"Error: "\<close> and the text of the exception.
\<close>

lemma process_escapes_only_base:
  assumes "adapt_proxy (parse_url env) proxy = Inr proxy'"
    and "process_solve_request env conf url cmd cookies max_timeout proxy params forks = Escapes e"
  shows "\<not> is_Exception e"
  using assms(2) unfolding process_after_proxy [OF assms(1)]
  by (auto split: option.splits sum.splits if_splits)

lemma process_error_envelope:
  assumes "adapt_proxy (parse_url env) proxy = Inr proxy'"
    and "snd (try_body env conf url cmd cookies max_timeout proxy' params forks) = Some (Inl e)"
    and "is_Exception e"
  shows "process_solve_request env conf url cmd cookies max_timeout proxy params forks =
           Responds \<lparr>status = ''error'', message = ''Error: '' @ exc_str e,
             startTimestamp = now_start env, endTimestamp = now_end env, solution = None\<rparr>"
  using assms(2,3) unfolding process_after_proxy [OF assms(1)]
  by (simp add: error_response_def)

text \<open>
  An envelope with the status \<open>ok\<close> is made by \<open>assemble\<close> alone, from a result that
  the coordinator returned and a user agent that the identity fetch returned.
\<close>

lemma process_ok:
  assumes "process_solve_request env conf url cmd cookies max_timeout proxy params forks
             = Responds r"
    and "status r = ''ok''"
  shows "\<exists>proxy' req args run res sk ex ua cs.
           adapt_proxy (parse_url env) proxy = Inr proxy' \<and>
           prepare env conf url cmd cookies max_timeout proxy' params = Inr (req, args) \<and>
           wait_first_non_exception
             (map snd (attempt_runs (Solver_solve env) req proxy' args
                (case forks of None \<Rightarrow> default_forks conf | Some fs \<Rightarrow> fs)))
             accept_any (schedule env) = Some run \<and>
           race_exit run = Return (Some res) sk ex \<and>
           snd (get_user_agent (float_repr env) (Solver_get_user_agent env) args max_timeout) =
             Some (Returned ua) \<and>
           convert_cookies (validation env) (resp_cookies res) = Inr cs \<and>
           r = \<lparr>status = ''ok'', message = resp_message res,
                startTimestamp = now_start env, endTimestamp = now_end env,
                solution = Some \<lparr>sol_status = 200, sol_url = resp_url res, sol_cookies = cs,
                  sol_userAgent = Some ua, sol_response = resp_response res\<rparr>\<rparr>"
proof -
  from assms(1) obtain proxy' where proxy': "adapt_proxy (parse_url env) proxy = Inr proxy'"
    by (cases "adapt_proxy (parse_url env) proxy") (auto simp: process_proxy_raises)
  let ?body = "snd (try_body env conf url cmd cookies max_timeout proxy' params forks)"
  have not_error: "r \<noteq> error_response env e" for e
    using assms(2) by (auto simp: error_response_def)
  from assms(1) not_error have body: "?body = Some (Inr r)"
    unfolding process_after_proxy [OF proxy']
    by (auto split: option.splits sum.splits if_splits)
  then obtain req args where prep:
    "prepare env conf url cmd cookies max_timeout proxy' params = Inr (req, args)"
    by (cases "prepare env conf url cmd cookies max_timeout proxy' params")
       (auto simp: try_body_def)
  let ?race = "wait_first_non_exception
             (map snd (attempt_runs (Solver_solve env) req proxy' args
                (case forks of None \<Rightarrow> default_forks conf | Some fs \<Rightarrow> fs)))
             accept_any (schedule env)"
  let ?identity = "snd (get_user_agent (float_repr env) (Solver_get_user_agent env) args
                          max_timeout)"
  from body obtain sr ua where g: "gather (first_to_raise env) ?race ?identity
      = Some (Inr (sr, ua))" and a: "assemble env sr ua = Inr r"
    unfolding try_body_prepared(1) [OF prep]
    by (auto split: option.splits sum.splits)
  from gather_returns [OF g] obtain run sk ex where
    "?race = Some run" "race_exit run = Return sr sk ex" "?identity = Some (Returned ua)"
    by blast
  moreover from assemble_returns [OF a] obtain res cs where
    "sr = Some res" "convert_cookies (validation env) (resp_cookies res) = Inr cs"
    "r = \<lparr>status = ''ok'', message = resp_message res,
          startTimestamp = now_start env, endTimestamp = now_end env,
          solution = Some \<lparr>sol_status = 200, sol_url = resp_url res, sol_cookies = cs,
            sol_userAgent = Some ua, sol_response = resp_response res\<rparr>\<rparr>" by blast
  ultimately show ?thesis using proxy' prep by blast
qed

text \<open>
  Once the proxy has been normalised and the request prepared, an identity fetch that
  raises ends the request with the exception that \<open>asyncio.gather\<close> passes on: as the
  envelope of an error when it is an instance of \<open>Exception\<close>, uncaught otherwise.
\<close>

lemma process_identity_raised:
  assumes "adapt_proxy (parse_url env) proxy = Inr proxy'"
    and "prepare env conf url cmd cookies max_timeout proxy' params = Inr (req, args)"
    and "snd (get_user_agent (float_repr env) (Solver_get_user_agent env) args max_timeout) =
           Some (Raised e)"
  shows "\<exists>e'. (e' = e \<or>
               (\<exists>run. wait_first_non_exception
                  (map snd (attempt_runs (Solver_solve env) req proxy' args
                     (case forks of None \<Rightarrow> default_forks conf | Some fs \<Rightarrow> fs)))
                  accept_any (schedule env) = Some run \<and> race_exit run = Raise e')) \<and>
              process_solve_request env conf url cmd cookies max_timeout proxy params forks =
                (if is_Exception e' then Responds (error_response env e') else Escapes e')"
proof -
  let ?race = "wait_first_non_exception
             (map snd (attempt_runs (Solver_solve env) req proxy' args
                (case forks of None \<Rightarrow> default_forks conf | Some fs \<Rightarrow> fs)))
             accept_any (schedule env)"
  from gather_identity_raised [OF assms(3), of "first_to_raise env" ?race]
  obtain e' where g: "gather (first_to_raise env) ?race
      (snd (get_user_agent (float_repr env) (Solver_get_user_agent env) args max_timeout)) =
      Some (Inl e')"
    and e': "e' = e \<or> (\<exists>run. ?race = Some run \<and> race_exit run = Raise e')" by blast
  have "snd (try_body env conf url cmd cookies max_timeout proxy' params forks) = Some (Inl e')"
    unfolding try_body_prepared(1) [OF assms(2)] using g by simp
  then have "process_solve_request env conf url cmd cookies max_timeout proxy params forks =
      (if is_Exception e' then Responds (error_response env e') else Escapes e')"
    unfolding process_after_proxy [OF assms(1)] by simp
  with e' show ?thesis by blast
qed

section \<open>The sample request, step by step\<close>

lemma str_int_8080: "str_int 8080 = ''8080''"
  by (simp add: str_int_def str_nat.simps digit_char_def)

lemma str_int_1000: "str_int 1000 = ''1000''"
  by (simp add: str_int_def str_nat.simps digit_char_def)

lemma str_int_50: "str_int 50 = ''50''"
  by (simp add: str_int_def str_nat.simps digit_char_def)

lemma str_int_60000: "str_int 60000 = ''60000''"
  by (simp add: str_int_def str_nat.simps digit_char_def)

lemma str_float_50: "str_float repr 50 = ''50.0''"
  by (simp add: str_float_def str_int_50)

lemma str_float_60000: "str_float repr 60000 = ''60000.0''"
  by (simp add: str_float_def str_int_60000)

lemma sample_cookie:
  "CookieModel_init sample_validation
     [''name'' \<mapsto> PStr ''a'', ''value'' \<mapsto> PStr ''b'', ''domain'' \<mapsto> PStr ''x.com''] =
   Inr \<lparr>cookie_name = ''a'', cookie_value = ''b'', cookie_domain = ''x.com'',
        cookie_port = None, cookie_path = Some ''/'', cookie_secure = Some True,
        cookie_expires = None\<rparr>"
  by (rule CookieModel_init_defaults) (simp_all add: sample_validation_def)

lemma sample_adapt:
  "adapt_proxy (parse_url (sample_environment\<lparr>Solver_get_user_agent := probe\<rparr>)) None =
   Inr None"
  by (simp add: adapt_proxy_def)

lemma sample_prepare:
  "prepare (sample_environment\<lparr>Solver_get_user_agent := probe\<rparr>) sample_configuration
     ''https://x.com/'' (Some ''get_cookies'') None (Some (NFloat 60000)) None None =
   Inr (sample_request, solver_args sample_configuration)"
  by (simp add: prepare_def isolate_dir_def sample_configuration_def sample_environment_def
      sample_request_def)

lemma sample_race:
  "wait_first_non_exception
     (map snd (attempt_runs sample_solver sample_request None args [])) accept_any [[0]] =
   Some \<lparr>race_exit = Return (Some sample_response) [] [], cancelled = [], recorded = []\<rparr>"
  by (simp add: attempt_runs_def solve_tasks_def solve_primary sample_solver_def
      wait_first_non_exception_def accept_any_def)

lemma sample_assemble:
  "assemble (sample_environment\<lparr>Solver_get_user_agent := probe\<rparr>) (Some sample_response) ua =
   Inr \<lparr>status = ''ok'', message = ''Challenge solved!'',
     startTimestamp = 0, endTimestamp = 1,
     solution = Some \<lparr>sol_status = 200, sol_url = ''https://x.com/'',
       sol_cookies = [\<lparr>cookie_name = ''a'', cookie_value = ''b'', cookie_domain = ''x.com'',
         cookie_port = None, cookie_path = Some ''/'', cookie_secure = Some True,
         cookie_expires = None\<rparr>],
       sol_userAgent = Some ua, sol_response = None\<rparr>\<rparr>"
  by (simp add: assemble_def sample_response_def sample_cookie sample_environment_def)

text \<open>
  The sample request with any identity probe: the primary attempt wins the race, and the
  request ends as the identity fetch does.
\<close>

lemma sample_try_body:
  "snd (try_body (sample_environment\<lparr>Solver_get_user_agent := probe\<rparr>) sample_configuration
     ''https://x.com/'' (Some ''get_cookies'') None (Some (NFloat 60000)) None None None) =
   (case snd (get_user_agent (\<lambda>x. ''nan'') probe (solver_args sample_configuration)
                (Some (NFloat 60000))) of
      None \<Rightarrow> None
    | Some (Returned ua) \<Rightarrow>
        Some (assemble (sample_environment\<lparr>Solver_get_user_agent := probe\<rparr>)
                (Some sample_response) ua)
    | Some (Raised e) \<Rightarrow> Some (Inl e))"
proof -
  have race: "wait_first_non_exception
     (map snd (attempt_runs sample_solver sample_request None
        (solver_args sample_configuration) []))
     accept_any [[0]] =
     Some \<lparr>race_exit = Return (Some sample_response) [] [], cancelled = [], recorded = []\<rparr>"
    by (rule sample_race)
  show ?thesis
    unfolding try_body_prepared(1) [OF sample_prepare]
    using race
    by (simp add: sample_environment_def sample_configuration_def gather_def
        split: option.splits outcome.splits)
qed

lemma sample_request_result:
  "process_solve_request (sample_environment\<lparr>Solver_get_user_agent := probe\<rparr>)
     sample_configuration ''https://x.com/'' (Some ''get_cookies'') None
     (Some (NFloat 60000)) None None None =
   (case snd (get_user_agent (\<lambda>x. ''nan'') probe (solver_args sample_configuration)
                (Some (NFloat 60000))) of
      None \<Rightarrow> Hangs
    | Some (Returned ua) \<Rightarrow>
        Responds \<lparr>status = ''ok'', message = ''Challenge solved!'',
          startTimestamp = 0, endTimestamp = 1,
          solution = Some \<lparr>sol_status = 200, sol_url = ''https://x.com/'',
            sol_cookies = [\<lparr>cookie_name = ''a'', cookie_value = ''b'', cookie_domain = ''x.com'',
              cookie_port = None, cookie_path = Some ''/'', cookie_secure = Some True,
              cookie_expires = None\<rparr>],
            sol_userAgent = Some ua, sol_response = None\<rparr>\<rparr>
    | Some (Raised e) \<Rightarrow>
        if is_Exception e
        then Responds \<lparr>status = ''error'', message = ''Error: '' @ exc_str e,
               startTimestamp = 0, endTimestamp = 1, solution = None\<rparr>
        else Escapes e)"
proof -
  have clock: "now_start (sample_environment\<lparr>Solver_get_user_agent := probe\<rparr>) = 0"
    "now_end (sample_environment\<lparr>Solver_get_user_agent := probe\<rparr>) = 1"
    by (simp_all add: sample_environment_def)
  show ?thesis
    unfolding process_after_proxy [OF sample_adapt] sample_try_body
    by (simp add: sample_assemble error_response_def clock
        split: option.splits outcome.splits)
qed

lemma sample_identity:
  "snd (get_user_agent repr (\<lambda>init. Awaitable (Some (3 / 100, Returned ''Mozilla/5.0'')) Stops)
          args (Some (NFloat 60000))) = Some (Returned ''Mozilla/5.0'')"
  by (simp add: get_user_agent_def)

lemma sample_identity_timeout:
  "snd (get_user_agent repr (\<lambda>init. Awaitable None Stops) args (Some (NFloat 60000))) =
   Some (Raised (PyExc ''Exception''
     ''On user-agent getting: Processing timeout (max_timeout=60000.0)''))"
  by (simp add: get_user_agent_def on_user_agent_getting_def str_float_60000)

lemma sample_identity_cancelled:
  "snd (get_user_agent repr
          (\<lambda>init. Awaitable (Some (3 / 100, Raised (PyBaseExc ''CancelledError'' []))) Stops)
          args (Some (NFloat 60000))) = Some (Raised (PyBaseExc ''CancelledError'' []))"
  by (simp add: get_user_agent_def)

lemma sample_environment_probe:
  "sample_environment\<lparr>Solver_get_user_agent :=
      (\<lambda>init. Awaitable (Some (3 / 100, Returned ''Mozilla/5.0'')) Stops)\<rparr> = sample_environment"
  by (simp add: sample_environment_def)

lemma sample_process:
  "process_solve_request sample_environment sample_configuration
     ''https://x.com/'' (Some ''get_cookies'') None (Some (NFloat 60000)) None None None =
   Responds \<lparr>status = ''ok'', message = ''Challenge solved!'',
     startTimestamp = 0, endTimestamp = 1,
     solution = Some \<lparr>sol_status = 200, sol_url = ''https://x.com/'',
       sol_cookies = [\<lparr>cookie_name = ''a'', cookie_value = ''b'', cookie_domain = ''x.com'',
         cookie_port = None, cookie_path = Some ''/'', cookie_secure = Some True,
         cookie_expires = None\<rparr>],
       sol_userAgent = Some ''Mozilla/5.0'', sol_response = None\<rparr>\<rparr>"
  using sample_request_result
    [of "\<lambda>init. Awaitable (Some (3 / 100, Returned ''Mozilla/5.0'')) Stops"]
  by (simp only: sample_environment_probe sample_identity option.case outcome.case)

lemma sample_process_timeout:
  "process_solve_request (sample_environment\<lparr>Solver_get_user_agent := (\<lambda>init. Awaitable None Stops)\<rparr>)
     sample_configuration ''https://x.com/'' (Some ''get_cookies'') None (Some (NFloat 60000))
     None None None =
   Responds \<lparr>status = ''error'',
     message = ''Error: On user-agent getting: Processing timeout (max_timeout=60000.0)'',
     startTimestamp = 0, endTimestamp = 1, solution = None\<rparr>"
  by (simp add: sample_request_result sample_identity_timeout)

lemma sample_process_cancelled:
  "process_solve_request
     (sample_environment\<lparr>Solver_get_user_agent :=
        (\<lambda>init. Awaitable (Some (3 / 100, Raised (PyBaseExc ''CancelledError'' []))) Stops)\<rparr>)
     sample_configuration ''https://x.com/'' (Some ''get_cookies'') None (Some (NFloat 60000))
     None None None =
   Escapes (PyBaseExc ''CancelledError'' [])"
  by (simp add: sample_request_result sample_identity_cancelled)

section \<open>The claims about the request pipeline\<close>

text \<open>
  C2, as stated, fails: an identity fetch that fails does not always give the envelope
  of an error. The probe of the sample request ends with \<open>asyncio.CancelledError\<close>,
  which neither handler of \<open>get_user_agent\<close> nor the \<open>except Exception\<close> of
  \<open>process_solve_request\<close> catches: the identity fetch has failed, the primary attempt
  has succeeded, and the exception leaves the request.
\<close>

theorem identity_fetch_counterexample:
  "snd (get_user_agent (float_repr sample_environment)
          (\<lambda>init. Awaitable (Some (3 / 100, Raised (PyBaseExc ''CancelledError'' []))) Stops)
          (solver_args sample_configuration) (Some (NFloat 60000))) =
     Some (Raised (PyBaseExc ''CancelledError'' [])) \<and>
   process_solve_request
     (sample_environment\<lparr>Solver_get_user_agent :=
        (\<lambda>init. Awaitable (Some (3 / 100, Raised (PyBaseExc ''CancelledError'' []))) Stops)\<rparr>)
     sample_configuration ''https://x.com/'' (Some ''get_cookies'') None (Some (NFloat 60000))
     None None None =
   Escapes (PyBaseExc ''CancelledError'' [])"
  by (simp add: sample_identity_cancelled sample_process_cancelled)

text \<open>
  C2, amended. An envelope with the status \<open>ok\<close> is returned only when the coordinator
  returned a winning result and the identity fetch returned a user agent. Whenever the
  identity fetch, once started, raises (a failed probe, an expired timeout, a
  cancellation), the request ends with the exception that \<open>asyncio.gather\<close> passes on,
  whatever the attempts do: as the envelope of an error when that exception is an
  instance of \<open>Exception\<close>, uncaught otherwise. In particular the envelope of an error
  is returned when the identity fetch raised an instance of \<open>Exception\<close> and the
  coordinator did not end with an exception outside \<open>Exception\<close>.
\<close>

theorem identity_fetch_is_mandatory:
  "(process_solve_request env conf url cmd cookies max_timeout proxy params forks = Responds r \<and>
    status r = ''ok'' \<longrightarrow>
      (\<exists>proxy' req args run res sk ex ua.
         adapt_proxy (parse_url env) proxy = Inr proxy' \<and>
         prepare env conf url cmd cookies max_timeout proxy' params = Inr (req, args) \<and>
         wait_first_non_exception
           (map snd (attempt_runs (Solver_solve env) req proxy' args
              (case forks of None \<Rightarrow> default_forks conf | Some fs \<Rightarrow> fs)))
           accept_any (schedule env) = Some run \<and>
         race_exit run = Return (Some res) sk ex \<and>
         snd (get_user_agent (float_repr env) (Solver_get_user_agent env) args max_timeout) =
           Some (Returned ua))) \<and>
   (adapt_proxy (parse_url env) proxy = Inr proxy0 \<and>
    prepare env conf url cmd cookies max_timeout proxy0 params = Inr (req0, args0) \<and>
    snd (get_user_agent (float_repr env) (Solver_get_user_agent env) args0 max_timeout) =
      Some (Raised e) \<longrightarrow>
      (\<exists>e'. is_Exception e' \<and>
         process_solve_request env conf url cmd cookies max_timeout proxy params forks =
           Responds \<lparr>status = ''error'', message = ''Error: '' @ exc_str e',
             startTimestamp = now_start env, endTimestamp = now_end env, solution = None\<rparr>) \<or>
      (\<exists>e'. \<not> is_Exception e' \<and>
         process_solve_request env conf url cmd cookies max_timeout proxy params forks =
           Escapes e')) \<and>
   (adapt_proxy (parse_url env) proxy = Inr proxy0 \<and>
    prepare env conf url cmd cookies max_timeout proxy0 params = Inr (req0, args0) \<and>
    snd (get_user_agent (float_repr env) (Solver_get_user_agent env) args0 max_timeout) =
      Some (Raised e) \<and>
    is_Exception e \<and>
    (\<forall>run e1.
       wait_first_non_exception
         (map snd (attempt_runs (Solver_solve env) req0 proxy0 args0
            (case forks of None \<Rightarrow> default_forks conf | Some fs \<Rightarrow> fs)))
         accept_any (schedule env) = Some run \<and>
       race_exit run = Raise e1 \<longrightarrow> is_Exception e1) \<longrightarrow>
      (\<exists>e'. process_solve_request env conf url cmd cookies max_timeout proxy params forks =
         Responds \<lparr>status = ''error'', message = ''Error: '' @ exc_str e',
           startTimestamp = now_start env, endTimestamp = now_end env, solution = None\<rparr>))"
proof (intro conjI impI)
  assume "process_solve_request env conf url cmd cookies max_timeout proxy params forks =
      Responds r \<and> status r = ''ok''"
  then have "process_solve_request env conf url cmd cookies max_timeout proxy params forks =
      Responds r" and "status r = ''ok''" by simp_all
  from process_ok [OF this]
  show "\<exists>proxy' req args run res sk ex ua.
         adapt_proxy (parse_url env) proxy = Inr proxy' \<and>
         prepare env conf url cmd cookies max_timeout proxy' params = Inr (req, args) \<and>
         wait_first_non_exception
           (map snd (attempt_runs (Solver_solve env) req proxy' args
              (case forks of None \<Rightarrow> default_forks conf | Some fs \<Rightarrow> fs)))
           accept_any (schedule env) = Some run \<and>
         race_exit run = Return (Some res) sk ex \<and>
         snd (get_user_agent (float_repr env) (Solver_get_user_agent env) args max_timeout) =
           Some (Returned ua)"
    by blast
next
  assume "adapt_proxy (parse_url env) proxy = Inr proxy0 \<and>
    prepare env conf url cmd cookies max_timeout proxy0 params = Inr (req0, args0) \<and>
    snd (get_user_agent (float_repr env) (Solver_get_user_agent env) args0 max_timeout) =
      Some (Raised e)"
  then have a: "adapt_proxy (parse_url env) proxy = Inr proxy0"
    and p: "prepare env conf url cmd cookies max_timeout proxy0 params = Inr (req0, args0)"
    and i: "snd (get_user_agent (float_repr env) (Solver_get_user_agent env) args0 max_timeout) =
      Some (Raised e)"
    by simp_all
  from process_identity_raised [OF a p i, of forks] obtain e' where
    "process_solve_request env conf url cmd cookies max_timeout proxy params forks =
       (if is_Exception e' then Responds (error_response env e') else Escapes e')"
    by blast
  then show "(\<exists>e'. is_Exception e' \<and>
         process_solve_request env conf url cmd cookies max_timeout proxy params forks =
           Responds \<lparr>status = ''error'', message = ''Error: '' @ exc_str e',
             startTimestamp = now_start env, endTimestamp = now_end env, solution = None\<rparr>) \<or>
      (\<exists>e'. \<not> is_Exception e' \<and>
         process_solve_request env conf url cmd cookies max_timeout proxy params forks =
           Escapes e')"
    by (cases "is_Exception e'") (auto simp: error_response_def)
next
  assume "adapt_proxy (parse_url env) proxy = Inr proxy0 \<and>
    prepare env conf url cmd cookies max_timeout proxy0 params = Inr (req0, args0) \<and>
    snd (get_user_agent (float_repr env) (Solver_get_user_agent env) args0 max_timeout) =
      Some (Raised e) \<and>
    is_Exception e \<and>
    (\<forall>run e1.
       wait_first_non_exception
         (map snd (attempt_runs (Solver_solve env) req0 proxy0 args0
            (case forks of None \<Rightarrow> default_forks conf | Some fs \<Rightarrow> fs)))
         accept_any (schedule env) = Some run \<and>
       race_exit run = Raise e1 \<longrightarrow> is_Exception e1)"
  then have a: "adapt_proxy (parse_url env) proxy = Inr proxy0"
    and p: "prepare env conf url cmd cookies max_timeout proxy0 params = Inr (req0, args0)"
    and i: "snd (get_user_agent (float_repr env) (Solver_get_user_agent env) args0 max_timeout) =
      Some (Raised e)"
    and e: "is_Exception e"
    and race: "\<And>run e1. wait_first_non_exception
         (map snd (attempt_runs (Solver_solve env) req0 proxy0 args0
            (case forks of None \<Rightarrow> default_forks conf | Some fs \<Rightarrow> fs)))
         accept_any (schedule env) = Some run \<Longrightarrow>
       race_exit run = Raise e1 \<Longrightarrow> is_Exception e1"
    by simp_all
  from process_identity_raised [OF a p i, of forks] obtain e' where
    which: "e' = e \<or>
       (\<exists>run. wait_first_non_exception
          (map snd (attempt_runs (Solver_solve env) req0 proxy0 args0
             (case forks of None \<Rightarrow> default_forks conf | Some fs \<Rightarrow> fs)))
          accept_any (schedule env) = Some run \<and> race_exit run = Raise e')"
    and res: "process_solve_request env conf url cmd cookies max_timeout proxy params forks =
       (if is_Exception e' then Responds (error_response env e') else Escapes e')"
    by blast
  from which e race have "is_Exception e'" by blast
  with res show "\<exists>e'. process_solve_request env conf url cmd cookies max_timeout proxy params forks =
         Responds \<lparr>status = ''error'', message = ''Error: '' @ exc_str e',
           startTimestamp = now_start env, endTimestamp = now_end env, solution = None\<rparr>"
    by (auto simp: error_response_def)
qed

theorem identity_fetch_is_mandatory_witness:
  "(process_solve_request sample_environment sample_configuration
      ''https://x.com/'' (Some ''get_cookies'') None (Some (NFloat 60000)) None None None =
    Responds \<lparr>status = ''ok'', message = ''Challenge solved!'',
      startTimestamp = 0, endTimestamp = 1,
      solution = Some \<lparr>sol_status = 200, sol_url = ''https://x.com/'',
        sol_cookies = [\<lparr>cookie_name = ''a'', cookie_value = ''b'', cookie_domain = ''x.com'',
          cookie_port = None, cookie_path = Some ''/'', cookie_secure = Some True,
          cookie_expires = None\<rparr>],
        sol_userAgent = Some ''Mozilla/5.0'', sol_response = None\<rparr>\<rparr> \<and>
    (\<exists>ua. snd (get_user_agent (float_repr sample_environment)
                 (Solver_get_user_agent sample_environment)
                 (solver_args sample_configuration) (Some (NFloat 60000))) =
            Some (Returned ua))) \<and>
   (snd (get_user_agent (float_repr sample_environment) (\<lambda>init. Awaitable None Stops)
           (solver_args sample_configuration) (Some (NFloat 60000))) =
      Some (Raised (PyExc ''Exception''
        ''On user-agent getting: Processing timeout (max_timeout=60000.0)'')) \<and>
    (\<exists>e'. process_solve_request
            (sample_environment\<lparr>Solver_get_user_agent := (\<lambda>init. Awaitable None Stops)\<rparr>)
            sample_configuration ''https://x.com/'' (Some ''get_cookies'') None
            (Some (NFloat 60000)) None None None =
          Responds \<lparr>status = ''error'', message = ''Error: '' @ exc_str e',
            startTimestamp = 0, endTimestamp = 1, solution = None\<rparr>))"
proof -
  let ?env2 = "sample_environment\<lparr>Solver_get_user_agent := (\<lambda>init. Awaitable None Stops)\<rparr>"
  let ?timeout = "PyExc ''Exception''
        ''On user-agent getting: Processing timeout (max_timeout=60000.0)''"
  let ?ok = "\<lparr>status = ''ok'', message = ''Challenge solved!'',
      startTimestamp = 0, endTimestamp = 1,
      solution = Some \<lparr>sol_status = 200, sol_url = ''https://x.com/'',
        sol_cookies = [\<lparr>cookie_name = ''a'', cookie_value = ''b'', cookie_domain = ''x.com'',
          cookie_port = None, cookie_path = Some ''/'', cookie_secure = Some True,
          cookie_expires = None\<rparr>],
        sol_userAgent = Some ''Mozilla/5.0'', sol_response = None\<rparr>\<rparr>"
  note first = identity_fetch_is_mandatory [of sample_environment sample_configuration
      "''https://x.com/''" "Some ''get_cookies''" None "Some (NFloat 60000)" None None None ?ok,
      THEN conjunct1, rule_format]
  have ok: "process_solve_request sample_environment sample_configuration
      ''https://x.com/'' (Some ''get_cookies'') None (Some (NFloat 60000)) None None None =
      Responds ?ok \<and> status ?ok = ''ok''"
    using sample_process by simp
  have prep1: "prepare sample_environment sample_configuration ''https://x.com/''
      (Some ''get_cookies'') None (Some (NFloat 60000)) None None =
      Inr (sample_request, solver_args sample_configuration)"
    using sample_prepare [of "Solver_get_user_agent sample_environment"] by simp
  have adapt1: "adapt_proxy (parse_url sample_environment) None = Inr None"
    by (simp add: adapt_proxy_def)
  from first [OF ok] have part1: "\<exists>ua. snd (get_user_agent (float_repr sample_environment)
                 (Solver_get_user_agent sample_environment)
                 (solver_args sample_configuration) (Some (NFloat 60000))) =
            Some (Returned ua)"
    using prep1 adapt1 by auto
  note third = identity_fetch_is_mandatory [of ?env2 sample_configuration
      "''https://x.com/''" "Some ''get_cookies''" None "Some (NFloat 60000)" None None None _
      None sample_request "solver_args sample_configuration" ?timeout,
      THEN conjunct2, THEN conjunct2, rule_format]
  have timeout: "snd (get_user_agent (float_repr sample_environment) (\<lambda>init. Awaitable None Stops)
           (solver_args sample_configuration) (Some (NFloat 60000))) = Some (Raised ?timeout)"
    by (rule sample_identity_timeout)
  have race: "wait_first_non_exception
         (map snd (attempt_runs (Solver_solve ?env2) sample_request None
            (solver_args sample_configuration)
            (case None of None \<Rightarrow> default_forks sample_configuration | Some fs \<Rightarrow> fs)))
         accept_any (schedule ?env2) =
       Some \<lparr>race_exit = Return (Some sample_response) [] [], cancelled = [], recorded = []\<rparr>"
    using sample_race [of "solver_args sample_configuration"]
    by (simp add: sample_environment_def sample_configuration_def)
  have hyp: "adapt_proxy (parse_url ?env2) None = Inr None \<and>
    prepare ?env2 sample_configuration ''https://x.com/'' (Some ''get_cookies'') None
      (Some (NFloat 60000)) None None = Inr (sample_request, solver_args sample_configuration) \<and>
    snd (get_user_agent (float_repr ?env2) (Solver_get_user_agent ?env2)
      (solver_args sample_configuration) (Some (NFloat 60000))) = Some (Raised ?timeout) \<and>
    is_Exception ?timeout \<and>
    (\<forall>run e1.
       wait_first_non_exception
         (map snd (attempt_runs (Solver_solve ?env2) sample_request None
            (solver_args sample_configuration)
            (case None of None \<Rightarrow> default_forks sample_configuration | Some fs \<Rightarrow> fs)))
         accept_any (schedule ?env2) = Some run \<and>
       race_exit run = Raise e1 \<longrightarrow> is_Exception e1)"
    unfolding race
    using sample_prepare [of "\<lambda>init. Awaitable None Stops"] sample_identity_timeout
    by (auto simp: adapt_proxy_def)
  from third [OF hyp] have part2: "\<exists>e'. process_solve_request ?env2
            sample_configuration ''https://x.com/'' (Some ''get_cookies'') None
            (Some (NFloat 60000)) None None None =
          Responds \<lparr>status = ''error'', message = ''Error: '' @ exc_str e',
            startTimestamp = 0, endTimestamp = 1, solution = None\<rparr>"
    by (simp add: sample_environment_def)
  from ok part1 part2 timeout show ?thesis by simp
qed

text \<open>
  C3. The claim: every failure, that of an invalid proxy included, becomes the envelope
  of an error and no exception leaves \<open>process_solve_request\<close>. A proxy object whose
  URL has no scheme (\<open>parse_url("1.2.3.4:8080")\<close> has the host and the port only) fails
  in the normalisation, which stands before the \<open>try\<close>: the \<open>TypeError\<close> leaves the
  coroutine.
\<close>

theorem proxy_failure_escapes:
  "process_solve_request
     (env\<lparr>parse_url := (\<lambda>u. Inr \<lparr>url_scheme = None, url_auth = None,
        url_host = Some ''1.2.3.4'', url_port = Some 8080, url_path = None,
        url_query = None, url_fragment = None\<rparr>)\<rparr>)
     conf url cmd cookies max_timeout
     (Some (ProxyObj \<lparr>proxy_url = Some ''1.2.3.4:8080'', proxy_username = None,
                      proxy_password = None\<rparr>))
     params forks =
   Escapes (PyExc ''TypeError''
     (''unsupported operand type(s) for +: '' @ quoted ''NoneType'' @ '' and '' @ quoted ''str''))"
  by (simp add: process_solve_request_def run_request_def adapt_proxy_def
      unsupported_operand_def)

text \<open>
  C9. Every envelope with the status \<open>ok\<close> carries the message and the URL of the
  winning attempt, a solution with the status 200, the user agent of the identity fetch,
  the response body as it is, and one public cookie for each cookie of the attempt, in
  order: its name, value and domain are those of the attempt's cookie as pydantic stores
  them, and each of port, path, secure and expires is the default (\<open>None\<close>, \<open>/\<close>,
  \<open>True\<close>, \<open>None\<close>) when the attempt's cookie has no such key, \<open>None\<close> when the key
  holds \<open>None\<close>, and what pydantic stores otherwise. A cookie with a name, a value and a
  domain alone, all strings that pydantic stores as they are, becomes the public cookie
  with the path \<open>/\<close>, \<open>secure\<close> true and neither port nor expiry: so does
  \<open>{name: a, value: b, domain: x.com}\<close>.
\<close>

theorem success_envelope:
  "(process_solve_request env conf url cmd cookies max_timeout proxy params forks = Responds r \<and>
    status r = ''ok'' \<longrightarrow>
      (\<exists>proxy' req args run res sk ex ua cs.
         adapt_proxy (parse_url env) proxy = Inr proxy' \<and>
         prepare env conf url cmd cookies max_timeout proxy' params = Inr (req, args) \<and>
         wait_first_non_exception
           (map snd (attempt_runs (Solver_solve env) req proxy' args
              (case forks of None \<Rightarrow> default_forks conf | Some fs \<Rightarrow> fs)))
           accept_any (schedule env) = Some run \<and>
         race_exit run = Return (Some res) sk ex \<and>
         snd (get_user_agent (float_repr env) (Solver_get_user_agent env) args max_timeout) =
           Some (Returned ua) \<and>
         list_all2
           (\<lambda>d c.
              (case d ''name'' of None \<Rightarrow> None | Some x \<Rightarrow> valid_str (validation env) x) =
                Some (cookie_name c) \<and>
              (case d ''value'' of None \<Rightarrow> None | Some x \<Rightarrow> valid_str (validation env) x) =
                Some (cookie_value c) \<and>
              (case d ''domain'' of None \<Rightarrow> None | Some x \<Rightarrow> valid_str (validation env) x) =
                Some (cookie_domain c) \<and>
              cookie_port c =
                (case d ''port'' of None \<Rightarrow> None | Some PNone \<Rightarrow> None
                 | Some x \<Rightarrow> valid_int (validation env) x) \<and>
              cookie_path c =
                (case d ''path'' of None \<Rightarrow> Some ''/'' | Some PNone \<Rightarrow> None
                 | Some x \<Rightarrow> valid_str (validation env) x) \<and>
              cookie_secure c =
                (case d ''secure'' of None \<Rightarrow> Some True | Some PNone \<Rightarrow> None
                 | Some x \<Rightarrow> valid_bool (validation env) x) \<and>
              cookie_expires c =
                (case d ''expires'' of None \<Rightarrow> None | Some PNone \<Rightarrow> None
                 | Some x \<Rightarrow> valid_float (validation env) x))
           (resp_cookies res) cs \<and>
         r = \<lparr>status = ''ok'', message = resp_message res,
              startTimestamp = now_start env, endTimestamp = now_end env,
              solution = Some \<lparr>sol_status = 200, sol_url = resp_url res, sol_cookies = cs,
                sol_userAgent = Some ua, sol_response = resp_response res\<rparr>\<rparr>)) \<and>
   (valid_str pd (PStr n) = Some n \<and> valid_str pd (PStr v) = Some v \<and>
    valid_str pd (PStr dm) = Some dm \<longrightarrow>
      CookieModel_init pd [''name'' \<mapsto> PStr n, ''value'' \<mapsto> PStr v, ''domain'' \<mapsto> PStr dm] =
        Inr \<lparr>cookie_name = n, cookie_value = v, cookie_domain = dm,
             cookie_port = None, cookie_path = Some ''/'', cookie_secure = Some True,
             cookie_expires = None\<rparr>)"
proof (intro conjI impI)
  assume "process_solve_request env conf url cmd cookies max_timeout proxy params forks =
      Responds r \<and> status r = ''ok''"
  then have "process_solve_request env conf url cmd cookies max_timeout proxy params forks =
      Responds r" and "status r = ''ok''" by simp_all
  from process_ok [OF this] obtain proxy' req args run res sk ex ua cs where
    f: "adapt_proxy (parse_url env) proxy = Inr proxy'"
      "prepare env conf url cmd cookies max_timeout proxy' params = Inr (req, args)"
      "wait_first_non_exception
           (map snd (attempt_runs (Solver_solve env) req proxy' args
              (case forks of None \<Rightarrow> default_forks conf | Some fs \<Rightarrow> fs)))
           accept_any (schedule env) = Some run"
      "race_exit run = Return (Some res) sk ex"
      "snd (get_user_agent (float_repr env) (Solver_get_user_agent env) args max_timeout) =
         Some (Returned ua)"
      "r = \<lparr>status = ''ok'', message = resp_message res,
              startTimestamp = now_start env, endTimestamp = now_end env,
              solution = Some \<lparr>sol_status = 200, sol_url = resp_url res, sol_cookies = cs,
                sol_userAgent = Some ua, sol_response = resp_response res\<rparr>\<rparr>"
    and c: "convert_cookies (validation env) (resp_cookies res) = Inr cs"
    by blast
  let ?rel = "\<lambda>d c.
              (case d ''name'' of None \<Rightarrow> None | Some x \<Rightarrow> valid_str (validation env) x) =
                Some (cookie_name c) \<and>
              (case d ''value'' of None \<Rightarrow> None | Some x \<Rightarrow> valid_str (validation env) x) =
                Some (cookie_value c) \<and>
              (case d ''domain'' of None \<Rightarrow> None | Some x \<Rightarrow> valid_str (validation env) x) =
                Some (cookie_domain c) \<and>
              cookie_port c =
                (case d ''port'' of None \<Rightarrow> None | Some PNone \<Rightarrow> None
                 | Some x \<Rightarrow> valid_int (validation env) x) \<and>
              cookie_path c =
                (case d ''path'' of None \<Rightarrow> Some ''/'' | Some PNone \<Rightarrow> None
                 | Some x \<Rightarrow> valid_str (validation env) x) \<and>
              cookie_secure c =
                (case d ''secure'' of None \<Rightarrow> Some True | Some PNone \<Rightarrow> None
                 | Some x \<Rightarrow> valid_bool (validation env) x) \<and>
              cookie_expires c =
                (case d ''expires'' of None \<Rightarrow> None | Some PNone \<Rightarrow> None
                 | Some x \<Rightarrow> valid_float (validation env) x)"
  have "list_all2 ?rel (resp_cookies res) cs"
  proof (rule list_all2_mono [OF convert_cookies_each [OF c]])
    fix d c
    assume "CookieModel_init (validation env) d = Inr c"
    from CookieModel_init_fields [OF this] show "?rel d c" by blast
  qed
  with f show "\<exists>proxy' req args run res sk ex ua cs.
         adapt_proxy (parse_url env) proxy = Inr proxy' \<and>
         prepare env conf url cmd cookies max_timeout proxy' params = Inr (req, args) \<and>
         wait_first_non_exception
           (map snd (attempt_runs (Solver_solve env) req proxy' args
              (case forks of None \<Rightarrow> default_forks conf | Some fs \<Rightarrow> fs)))
           accept_any (schedule env) = Some run \<and>
         race_exit run = Return (Some res) sk ex \<and>
         snd (get_user_agent (float_repr env) (Solver_get_user_agent env) args max_timeout) =
           Some (Returned ua) \<and>
         list_all2 ?rel (resp_cookies res) cs \<and>
         r = \<lparr>status = ''ok'', message = resp_message res,
              startTimestamp = now_start env, endTimestamp = now_end env,
              solution = Some \<lparr>sol_status = 200, sol_url = resp_url res, sol_cookies = cs,
                sol_userAgent = Some ua, sol_response = resp_response res\<rparr>\<rparr>"
    by blast
next
  assume "valid_str pd (PStr n) = Some n \<and> valid_str pd (PStr v) = Some v \<and>
    valid_str pd (PStr dm) = Some dm"
  then show "CookieModel_init pd [''name'' \<mapsto> PStr n, ''value'' \<mapsto> PStr v, ''domain'' \<mapsto> PStr dm] =
        Inr \<lparr>cookie_name = n, cookie_value = v, cookie_domain = dm,
             cookie_port = None, cookie_path = Some ''/'', cookie_secure = Some True,
             cookie_expires = None\<rparr>"
    by (intro CookieModel_init_defaults) simp_all
qed

theorem success_envelope_witness:
  "process_solve_request sample_environment sample_configuration
      ''https://x.com/'' (Some ''get_cookies'') None (Some (NFloat 60000)) None None None =
    Responds \<lparr>status = ''ok'', message = ''Challenge solved!'',
      startTimestamp = 0, endTimestamp = 1,
      solution = Some \<lparr>sol_status = 200, sol_url = ''https://x.com/'',
        sol_cookies = [\<lparr>cookie_name = ''a'', cookie_value = ''b'', cookie_domain = ''x.com'',
          cookie_port = None, cookie_path = Some ''/'', cookie_secure = Some True,
          cookie_expires = None\<rparr>],
        sol_userAgent = Some ''Mozilla/5.0'', sol_response = None\<rparr>\<rparr> \<and>
   (\<exists>(res::Response) ua cs.
      list_all2
        (\<lambda>d c.
           (case d ''name'' of None \<Rightarrow> None | Some x \<Rightarrow> valid_str sample_validation x) =
             Some (cookie_name c) \<and>
           (case d ''value'' of None \<Rightarrow> None | Some x \<Rightarrow> valid_str sample_validation x) =
             Some (cookie_value c) \<and>
           (case d ''domain'' of None \<Rightarrow> None | Some x \<Rightarrow> valid_str sample_validation x) =
             Some (cookie_domain c) \<and>
           cookie_port c =
             (case d ''port'' of None \<Rightarrow> None | Some PNone \<Rightarrow> None
              | Some x \<Rightarrow> valid_int sample_validation x) \<and>
           cookie_path c =
             (case d ''path'' of None \<Rightarrow> Some ''/'' | Some PNone \<Rightarrow> None
              | Some x \<Rightarrow> valid_str sample_validation x) \<and>
           cookie_secure c =
             (case d ''secure'' of None \<Rightarrow> Some True | Some PNone \<Rightarrow> None
              | Some x \<Rightarrow> valid_bool sample_validation x) \<and>
           cookie_expires c =
             (case d ''expires'' of None \<Rightarrow> None | Some PNone \<Rightarrow> None
              | Some x \<Rightarrow> valid_float sample_validation x))
        (resp_cookies res) cs \<and>
      \<lparr>status = ''ok'', message = ''Challenge solved!'',
        startTimestamp = 0, endTimestamp = 1,
        solution = Some \<lparr>sol_status = 200, sol_url = ''https://x.com/'',
          sol_cookies = [\<lparr>cookie_name = ''a'', cookie_value = ''b'', cookie_domain = ''x.com'',
            cookie_port = None, cookie_path = Some ''/'', cookie_secure = Some True,
            cookie_expires = None\<rparr>],
          sol_userAgent = Some ''Mozilla/5.0'', sol_response = None\<rparr>\<rparr> =
      \<lparr>status = ''ok'', message = resp_message res,
        startTimestamp = 0, endTimestamp = 1,
        solution = Some \<lparr>sol_status = 200, sol_url = resp_url res, sol_cookies = cs,
          sol_userAgent = Some ua, sol_response = resp_response res\<rparr>\<rparr>) \<and>
   CookieModel_init sample_validation
     [''name'' \<mapsto> PStr ''a'', ''value'' \<mapsto> PStr ''b'', ''domain'' \<mapsto> PStr ''x.com''] =
   Inr \<lparr>cookie_name = ''a'', cookie_value = ''b'', cookie_domain = ''x.com'',
        cookie_port = None, cookie_path = Some ''/'', cookie_secure = Some True,
        cookie_expires = None\<rparr>"
proof -
  let ?ok = "\<lparr>status = ''ok'', message = ''Challenge solved!'',
      startTimestamp = 0, endTimestamp = 1,
      solution = Some \<lparr>sol_status = 200, sol_url = ''https://x.com/'',
        sol_cookies = [\<lparr>cookie_name = ''a'', cookie_value = ''b'', cookie_domain = ''x.com'',
          cookie_port = None, cookie_path = Some ''/'', cookie_secure = Some True,
          cookie_expires = None\<rparr>],
        sol_userAgent = Some ''Mozilla/5.0'', sol_response = None\<rparr>\<rparr>"
  let ?rel = "\<lambda>d c.
           (case d ''name'' of None \<Rightarrow> None | Some x \<Rightarrow> valid_str sample_validation x) =
             Some (cookie_name c) \<and>
           (case d ''value'' of None \<Rightarrow> None | Some x \<Rightarrow> valid_str sample_validation x) =
             Some (cookie_value c) \<and>
           (case d ''domain'' of None \<Rightarrow> None | Some x \<Rightarrow> valid_str sample_validation x) =
             Some (cookie_domain c) \<and>
           cookie_port c =
             (case d ''port'' of None \<Rightarrow> None | Some PNone \<Rightarrow> None
              | Some x \<Rightarrow> valid_int sample_validation x) \<and>
           cookie_path c =
             (case d ''path'' of None \<Rightarrow> Some ''/'' | Some PNone \<Rightarrow> None
              | Some x \<Rightarrow> valid_str sample_validation x) \<and>
           cookie_secure c =
             (case d ''secure'' of None \<Rightarrow> Some True | Some PNone \<Rightarrow> None
              | Some x \<Rightarrow> valid_bool sample_validation x) \<and>
           cookie_expires c =
             (case d ''expires'' of None \<Rightarrow> None | Some PNone \<Rightarrow> None
              | Some x \<Rightarrow> valid_float sample_validation x)"
  note envelope = success_envelope [of sample_environment sample_configuration
      "''https://x.com/''" "Some ''get_cookies''" None "Some (NFloat 60000)" None None None ?ok,
      THEN conjunct1, rule_format]
  note cookie = success_envelope [of _ _ _ _ _ _ _ _ _ _ sample_validation
      "''a''" "''b''" "''x.com''", THEN conjunct2, rule_format]
  have env: "validation sample_environment = sample_validation"
    "now_start sample_environment = 0" "now_end sample_environment = 1"
    by (simp_all add: sample_environment_def)
  have ok: "process_solve_request sample_environment sample_configuration
      ''https://x.com/'' (Some ''get_cookies'') None (Some (NFloat 60000)) None None None =
      Responds ?ok \<and> status ?ok = ''ok''"
    using sample_process by simp
  from envelope [OF ok] have part1: "\<exists>(res::Response) ua cs.
      list_all2 ?rel (resp_cookies res) cs \<and>
      ?ok = \<lparr>status = ''ok'', message = resp_message res,
        startTimestamp = 0, endTimestamp = 1,
        solution = Some \<lparr>sol_status = 200, sol_url = resp_url res, sol_cookies = cs,
          sol_userAgent = Some ua, sol_response = resp_response res\<rparr>\<rparr>"
    unfolding env by blast
  have strings: "valid_str sample_validation (PStr ''a'') = Some ''a'' \<and>
      valid_str sample_validation (PStr ''b'') = Some ''b'' \<and>
      valid_str sample_validation (PStr ''x.com'') = Some ''x.com''"
    by (simp add: sample_validation_def)
  note part2 = cookie [OF strings]
  from ok part1 part2 show ?thesis by blast
qed

section \<open>The claims about the identity fetch and the proxy\<close>

text \<open>
  C8, as stated, fails twice. The identity fetch does not use the proxy of the attempts:
  for the sample request with the proxy \<open>http://1.2.3.4:8080\<close> the solver of the
  primary attempt is built with that proxy, the solver of the one probe without the
  keyword \<open>proxy\<close>. And the timeout does not keep the fetch from hanging:
  \<open>asyncio.wait_for\<close> cancels the probe and waits until it has ended, so that with a
  probe that does not stop when it is cancelled neither the fetch nor the request returns.
\<close>

theorem identity_fetch_proxy_counterexample:
  "request_events sample_environment sample_configuration ''https://x.com/''
     (Some ''get_cookies'') None (Some (NFloat 60000))
     (Some (ProxyStr ''http://1.2.3.4:8080'')) None None =
     \<lparr>attempt_events =
        [[SolverRun \<lparr>init_proxy = Some (Some ''http://1.2.3.4:8080''),
                     init_log_prefix = log_prefix 0,
                     init_kwargs = solver_args sample_configuration\<rparr>]],
      identity_events =
        [ProbeRun \<lparr>init_proxy = None, init_log_prefix = ''fork user-agent'',
                   init_kwargs = solver_args sample_configuration\<rparr>]\<rparr> \<and>
   snd (get_user_agent (float_repr sample_environment) (\<lambda>init. Awaitable None NeverStops)
          (solver_args sample_configuration) (Some (NFloat 60000))) = None \<and>
   process_solve_request
     (sample_environment\<lparr>Solver_get_user_agent := (\<lambda>init. Awaitable None NeverStops)\<rparr>)
     sample_configuration ''https://x.com/'' (Some ''get_cookies'') None (Some (NFloat 60000))
     None None None = Hangs"
proof -
  have prep: "prepare sample_environment sample_configuration ''https://x.com/''
      (Some ''get_cookies'') None (Some (NFloat 60000)) (Some ''http://1.2.3.4:8080'') None =
      Inr (sample_request\<lparr>req_proxy := Some ''http://1.2.3.4:8080''\<rparr>,
           solver_args sample_configuration)"
    by (simp add: prepare_def isolate_dir_def sample_configuration_def sample_environment_def
        sample_request_def)
  have adapt: "adapt_proxy (parse_url sample_environment)
      (Some (ProxyStr ''http://1.2.3.4:8080'')) = Inr (Some ''http://1.2.3.4:8080'')"
    by (simp add: adapt_proxy_def)
  have forks: "default_forks sample_configuration = []"
    by (simp add: sample_configuration_def)
  have events: "request_events sample_environment sample_configuration ''https://x.com/''
     (Some ''get_cookies'') None (Some (NFloat 60000))
     (Some (ProxyStr ''http://1.2.3.4:8080'')) None None =
     \<lparr>attempt_events =
        [[SolverRun \<lparr>init_proxy = Some (Some ''http://1.2.3.4:8080''),
                     init_log_prefix = log_prefix 0,
                     init_kwargs = solver_args sample_configuration\<rparr>]],
      identity_events =
        [ProbeRun \<lparr>init_proxy = None, init_log_prefix = ''fork user-agent'',
                   init_kwargs = solver_args sample_configuration\<rparr>]\<rparr>"
    unfolding request_events_after_proxy [OF adapt] try_body_prepared(2) [OF prep]
    by (simp add: forks attempt_runs_def solve_tasks_def solve_primary get_user_agent_def
        user_agent_solver_def)
  have hang: "snd (get_user_agent repr (\<lambda>init. Awaitable None NeverStops)
          (solver_args sample_configuration) (Some (NFloat 60000))) = None" for repr
    by (simp add: get_user_agent_def)
  have "process_solve_request
     (sample_environment\<lparr>Solver_get_user_agent := (\<lambda>init. Awaitable None NeverStops)\<rparr>)
     sample_configuration ''https://x.com/'' (Some ''get_cookies'') None (Some (NFloat 60000))
     None None None = Hangs"
    by (simp add: sample_request_result hang)
  with events hang show ?thesis by simp
qed

text \<open>
  C8, amended. A request whose proxy has been normalised and whose preparation has
  succeeded starts exactly one identity probe, on a solver built from the request's
  solver arguments and without a proxy, while the solver of the primary attempt is built
  from the same arguments and the normalised proxy. The fetch waits for the probe at
  most \<open>max_timeout / 1000\<close> seconds: a user agent that comes earlier is returned. When
  the probe has not finished by then it is cancelled: once it has stopped the fetch fails
  with the description \<open>On user-agent getting: Processing timeout (max_timeout=\<close>, the
  value of \<open>max_timeout\<close> as Python prints it and \<open>)\<close>, and as long as it does not stop
  the fetch does not return. The request, when the fetch is the first of the two to
  raise, answers the timeout with the envelope of that error. Python prints the integer
  1000 as \<open>1000\<close> and the float 50 as \<open>50.0\<close>.
\<close>

theorem get_user_agent_contract:
  "(adapt_proxy (parse_url env) proxy = Inr proxy' \<and>
    prepare env conf url cmd cookies (Some m) proxy' params = Inr (req, args) \<longrightarrow>
      identity_events (request_events env conf url cmd cookies (Some m) proxy params forks) =
        [ProbeRun \<lparr>init_proxy = None, init_log_prefix = ''fork user-agent'',
                   init_kwargs = args\<rparr>] \<and>
      (\<exists>others.
         attempt_events (request_events env conf url cmd cookies (Some m) proxy params forks) =
           [SolverRun \<lparr>init_proxy = Some proxy', init_log_prefix = log_prefix 0,
                       init_kwargs = args\<rparr>] # others)) \<and>
   (probe (user_agent_solver args) = Awaitable (Some (d, Returned ua)) wc \<and>
    d < number_real m / 1000 \<longrightarrow>
      snd (get_user_agent repr probe args (Some m)) = Some (Returned ua)) \<and>
   ((finishes (probe (user_agent_solver args)) = None \<or>
     (\<exists>d' res. finishes (probe (user_agent_solver args)) = Some (d', res) \<and>
        number_real m / 1000 \<le> d')) \<longrightarrow>
      (when_cancelled (probe (user_agent_solver args)) = Stops \<longrightarrow>
         snd (get_user_agent repr probe args (Some m)) =
           Some (Raised (PyExc ''Exception''
             (''On user-agent getting: Processing timeout (max_timeout='' @
              str_number repr m @ '')'')))) \<and>
      (when_cancelled (probe (user_agent_solver args)) = NeverStops \<longrightarrow>
         snd (get_user_agent repr probe args (Some m)) = None)) \<and>
   (adapt_proxy (parse_url env) proxy = Inr proxy' \<and>
    prepare env conf url cmd cookies (Some m) proxy' params = Inr (req, args) \<and>
    (finishes (Solver_get_user_agent env (user_agent_solver args)) = None \<or>
     (\<exists>d' res. finishes (Solver_get_user_agent env (user_agent_solver args)) = Some (d', res) \<and>
        number_real m / 1000 \<le> d')) \<and>
    when_cancelled (Solver_get_user_agent env (user_agent_solver args)) = Stops \<and>
    first_to_raise env = IdentityFirst \<longrightarrow>
      process_solve_request env conf url cmd cookies (Some m) proxy params forks =
        Responds \<lparr>status = ''error'',
          message = ''Error: On user-agent getting: Processing timeout (max_timeout='' @
                    str_number (float_repr env) m @ '')'',
          startTimestamp = now_start env, endTimestamp = now_end env, solution = None\<rparr>) \<and>
   str_number repr (NInt 1000) = ''1000'' \<and>
   str_number repr (NFloat 50) = ''50.0''"
proof -
  have late: "wait_for p t = after_cancel (when_cancelled p)"
    if "finishes p = None \<or> (\<exists>d' res. finishes p = Some (d', res) \<and> t \<le> d')"
    for p :: "string awaitable" and t
    using that by (cases p) auto
  have timeout: "snd (get_user_agent repr' p args (Some m)) =
      Some (Raised (PyExc ''Exception''
        (''On user-agent getting: Processing timeout (max_timeout='' @
         str_number repr' m @ '')'')))"
    if "finishes (p (user_agent_solver args)) = None \<or>
        (\<exists>d' res. finishes (p (user_agent_solver args)) = Some (d', res) \<and>
           number_real m / 1000 \<le> d')"
      and "when_cancelled (p (user_agent_solver args)) = Stops"
    for p repr'
    using late [OF that(1)] that(2)
    by (simp add: get_user_agent_def on_user_agent_getting_def)
  show ?thesis
  proof (intro conjI impI)
    assume "adapt_proxy (parse_url env) proxy = Inr proxy' \<and>
      prepare env conf url cmd cookies (Some m) proxy' params = Inr (req, args)"
    then have a: "adapt_proxy (parse_url env) proxy = Inr proxy'"
      and p: "prepare env conf url cmd cookies (Some m) proxy' params = Inr (req, args)"
      by simp_all
    show "identity_events (request_events env conf url cmd cookies (Some m) proxy params forks) =
        [ProbeRun \<lparr>init_proxy = None, init_log_prefix = ''fork user-agent'',
                   init_kwargs = args\<rparr>]"
      unfolding request_events_after_proxy [OF a] try_body_prepared(2) [OF p]
      by (simp add: get_user_agent_def user_agent_solver_def)
    show "\<exists>others.
         attempt_events (request_events env conf url cmd cookies (Some m) proxy params forks) =
           [SolverRun \<lparr>init_proxy = Some proxy', init_log_prefix = log_prefix 0,
                       init_kwargs = args\<rparr>] # others"
      unfolding request_events_after_proxy [OF a] try_body_prepared(2) [OF p]
      by (simp add: attempt_runs_def solve_tasks_def solve_primary)
  next
    assume "probe (user_agent_solver args) = Awaitable (Some (d, Returned ua)) wc \<and>
      d < number_real m / 1000"
    then show "snd (get_user_agent repr probe args (Some m)) = Some (Returned ua)"
      by (simp add: get_user_agent_def)
  next
    assume "finishes (probe (user_agent_solver args)) = None \<or>
     (\<exists>d' res. finishes (probe (user_agent_solver args)) = Some (d', res) \<and>
        number_real m / 1000 \<le> d')"
      and "when_cancelled (probe (user_agent_solver args)) = Stops"
    then show "snd (get_user_agent repr probe args (Some m)) =
           Some (Raised (PyExc ''Exception''
             (''On user-agent getting: Processing timeout (max_timeout='' @
              str_number repr m @ '')'')))"
      by (rule timeout)
  next
    assume "finishes (probe (user_agent_solver args)) = None \<or>
     (\<exists>d' res. finishes (probe (user_agent_solver args)) = Some (d', res) \<and>
        number_real m / 1000 \<le> d')"
      and "when_cancelled (probe (user_agent_solver args)) = NeverStops"
    then show "snd (get_user_agent repr probe args (Some m)) = None"
      using late [of "probe (user_agent_solver args)" "number_real m / 1000"]
      by (simp add: get_user_agent_def)
  next
    let ?e = "PyExc ''Exception''
          (''On user-agent getting: Processing timeout (max_timeout='' @
           str_number (float_repr env) m @ '')'')"
    assume "adapt_proxy (parse_url env) proxy = Inr proxy' \<and>
      prepare env conf url cmd cookies (Some m) proxy' params = Inr (req, args) \<and>
      (finishes (Solver_get_user_agent env (user_agent_solver args)) = None \<or>
       (\<exists>d' res. finishes (Solver_get_user_agent env (user_agent_solver args)) = Some (d', res) \<and>
          number_real m / 1000 \<le> d')) \<and>
      when_cancelled (Solver_get_user_agent env (user_agent_solver args)) = Stops \<and>
      first_to_raise env = IdentityFirst"
    then have a: "adapt_proxy (parse_url env) proxy = Inr proxy'"
      and p: "prepare env conf url cmd cookies (Some m) proxy' params = Inr (req, args)"
      and n: "finishes (Solver_get_user_agent env (user_agent_solver args)) = None \<or>
       (\<exists>d' res. finishes (Solver_get_user_agent env (user_agent_solver args)) = Some (d', res) \<and>
          number_real m / 1000 \<le> d')"
      and s: "when_cancelled (Solver_get_user_agent env (user_agent_solver args)) = Stops"
      and f: "first_to_raise env = IdentityFirst" by simp_all
    have i: "snd (get_user_agent (float_repr env) (Solver_get_user_agent env) args (Some m)) =
        Some (Raised ?e)"
      using n s by (rule timeout)
    have "snd (try_body env conf url cmd cookies (Some m) proxy' params forks) = Some (Inl ?e)"
      unfolding try_body_prepared(1) [OF p] f gather_identity_first [OF i] by simp
    from process_error_envelope [OF a this]
    show "process_solve_request env conf url cmd cookies (Some m) proxy params forks =
        Responds \<lparr>status = ''error'',
          message = ''Error: On user-agent getting: Processing timeout (max_timeout='' @
                    str_number (float_repr env) m @ '')'',
          startTimestamp = now_start env, endTimestamp = now_end env, solution = None\<rparr>"
      by simp
  next
    show "str_number repr (NInt 1000) = ''1000''"
      by (simp add: str_int_1000)
    show "str_number repr (NFloat 50) = ''50.0''"
      by (simp add: str_float_50)
  qed
qed

theorem get_user_agent_contract_witness:
  "(identity_events (request_events sample_environment sample_configuration ''https://x.com/''
      (Some ''get_cookies'') None (Some (NFloat 60000)) None None None) =
      [ProbeRun \<lparr>init_proxy = None, init_log_prefix = ''fork user-agent'',
                 init_kwargs = solver_args sample_configuration\<rparr>] \<and>
    (\<exists>others.
       attempt_events (request_events sample_environment sample_configuration
         ''https://x.com/'' (Some ''get_cookies'') None (Some (NFloat 60000)) None None None) =
         [SolverRun \<lparr>init_proxy = Some None, init_log_prefix = log_prefix 0,
                     init_kwargs = solver_args sample_configuration\<rparr>] # others)) \<and>
   (3 / 100 < number_real (NFloat 60000) / 1000 \<and>
    snd (get_user_agent (\<lambda>x. ''nan'')
           (\<lambda>init. Awaitable (Some (3 / 100, Returned ''Mozilla/5.0'')) Stops)
           (solver_args sample_configuration) (Some (NFloat 60000))) =
      Some (Returned ''Mozilla/5.0'')) \<and>
   (number_real (NFloat 60000) / 1000 \<le> 61 \<and>
    snd (get_user_agent (\<lambda>x. ''nan'')
           (\<lambda>init. Awaitable (Some (61, Returned ''Mozilla/5.0'')) Stops)
           (solver_args sample_configuration) (Some (NFloat 60000))) =
      Some (Raised (PyExc ''Exception''
        ''On user-agent getting: Processing timeout (max_timeout=60000.0)''))) \<and>
   snd (get_user_agent (\<lambda>x. ''nan'') (\<lambda>init. Awaitable None NeverStops)
          (solver_args sample_configuration) (Some (NFloat 60000))) = None \<and>
   process_solve_request
     (sample_environment\<lparr>Solver_get_user_agent := (\<lambda>init. Awaitable None Stops)\<rparr>)
     sample_configuration ''https://x.com/'' (Some ''get_cookies'') None (Some (NFloat 60000))
     None None None =
     Responds \<lparr>status = ''error'',
       message = ''Error: On user-agent getting: Processing timeout (max_timeout=60000.0)'',
       startTimestamp = 0, endTimestamp = 1, solution = None\<rparr>"
proof -
  let ?args = "solver_args sample_configuration"
  let ?m = "NFloat 60000"
  let ?env = "sample_environment\<lparr>Solver_get_user_agent := (\<lambda>init. Awaitable None Stops)\<rparr>"
  have printed: "str_number repr ?m = ''60000.0''" for repr
    by (simp add: str_float_60000)
  have before: "(3::real) / 100 < number_real ?m / 1000" by simp
  have after: "number_real ?m / 1000 \<le> (61::real)" by simp
  note started = get_user_agent_contract [of sample_environment None None sample_configuration
      "''https://x.com/''" "Some ''get_cookies''" None ?m None sample_request ?args None,
      THEN conjunct1, rule_format]
  have prepared: "adapt_proxy (parse_url sample_environment) None = Inr None \<and>
      prepare sample_environment sample_configuration ''https://x.com/'' (Some ''get_cookies'')
        None (Some ?m) None None = Inr (sample_request, ?args)"
    using sample_prepare [of "Solver_get_user_agent sample_environment"]
    by (simp add: adapt_proxy_def)
  note r0 = started [OF prepared]
  note early = get_user_agent_contract [of _ _ _ _ _ _ _ ?m _ _ ?args _
      "\<lambda>init. Awaitable (Some (3 / 100, Returned ''Mozilla/5.0'')) Stops" "3 / 100"
      "''Mozilla/5.0''" Stops "\<lambda>x. ''nan''",
      THEN conjunct2, THEN conjunct1, rule_format]
  have r1: "snd (get_user_agent (\<lambda>x. ''nan'')
           (\<lambda>init. Awaitable (Some (3 / 100, Returned ''Mozilla/5.0'')) Stops)
           ?args (Some ?m)) = Some (Returned ''Mozilla/5.0'')"
    by (rule early) (simp add: before)
  note late = get_user_agent_contract [of _ _ _ _ _ _ _ ?m _ _ ?args _
      "\<lambda>init. Awaitable (Some (61, Returned ''Mozilla/5.0'')) Stops" _ _ _ "\<lambda>x. ''nan''",
      THEN conjunct2, THEN conjunct2, THEN conjunct1, rule_format, THEN conjunct1, rule_format]
  have r2: "snd (get_user_agent (\<lambda>x. ''nan'')
           (\<lambda>init. Awaitable (Some (61, Returned ''Mozilla/5.0'')) Stops)
           ?args (Some ?m)) =
      Some (Raised (PyExc ''Exception''
        ''On user-agent getting: Processing timeout (max_timeout=60000.0)''))"
    using late unfolding printed by simp
  note never = get_user_agent_contract [of _ _ _ _ _ _ _ ?m _ _ ?args _
      "\<lambda>init. Awaitable None NeverStops" _ _ _ "\<lambda>x. ''nan''",
      THEN conjunct2, THEN conjunct2, THEN conjunct1, rule_format, THEN conjunct2, rule_format]
  have r3: "snd (get_user_agent (\<lambda>x. ''nan'') (\<lambda>init. Awaitable None NeverStops)
          ?args (Some ?m)) = None"
    using never by simp
  note whole = get_user_agent_contract [of ?env None None sample_configuration
      "''https://x.com/''" "Some ''get_cookies''" None ?m None sample_request ?args None,
      THEN conjunct2, THEN conjunct2, THEN conjunct2, THEN conjunct1, rule_format]
  have hyp: "adapt_proxy (parse_url ?env) None = Inr None \<and>
    prepare ?env sample_configuration ''https://x.com/'' (Some ''get_cookies'') None
      (Some ?m) None None = Inr (sample_request, ?args) \<and>
    (finishes (Solver_get_user_agent ?env (user_agent_solver ?args)) = None \<or>
     (\<exists>d' res. finishes (Solver_get_user_agent ?env (user_agent_solver ?args)) = Some (d', res) \<and>
        number_real ?m / 1000 \<le> d')) \<and>
    when_cancelled (Solver_get_user_agent ?env (user_agent_solver ?args)) = Stops \<and>
    first_to_raise ?env = IdentityFirst"
    using sample_prepare [of "\<lambda>init. Awaitable None Stops"]
    by (simp add: adapt_proxy_def sample_environment_def)
  have r4: "process_solve_request ?env
     sample_configuration ''https://x.com/'' (Some ''get_cookies'') None (Some ?m)
     None None None =
     Responds \<lparr>status = ''error'',
       message = ''Error: On user-agent getting: Processing timeout (max_timeout=60000.0)'',
       startTimestamp = 0, endTimestamp = 1, solution = None\<rparr>"
    using whole [OF hyp] unfolding printed by (simp add: sample_environment_def)
  from r0 before after r1 r2 r3 r4 show ?thesis by blast
qed

text \<open>
  C7, as stated, fails for a proxy object whose URL has no scheme: \<open>parse_url\<close> gives
  the host and the port of \<open>1.2.3.4:8080\<close> and no scheme, and the normalisation raises
  instead of giving a string.
\<close>

theorem adapt_proxy_counterexample:
  "adapt_proxy
     (\<lambda>u. Inr \<lparr>url_scheme = None, url_auth = None, url_host = Some ''1.2.3.4'',
                url_port = Some 8080, url_path = None, url_query = None,
                url_fragment = None\<rparr>)
     (Some (ProxyObj \<lparr>proxy_url = Some ''1.2.3.4:8080'', proxy_username = Some ''u'',
                      proxy_password = Some ''p''\<rparr>)) =
   Inl (PyExc ''TypeError''
     (''unsupported operand type(s) for +: '' @ quoted ''NoneType'' @ '' and '' @ quoted ''str''))"
  by (simp add: adapt_proxy_def unsupported_operand_def)

text \<open>
  C7, amended. For every proxy object whose \<open>url\<close> parses to a URL with a scheme and a
  host, the normalisation gives \<open>scheme://\<close>, then \<open>user:pass@\<close> when the object has a
  non-empty user name (with an empty \<open>pass\<close> when it has no password), then the host,
  then \<open>:port\<close> when the URL has a port other than 0. Without a user name there is no
  credential segment. The credentials inside the URL (its \<open>auth\<close> part) have no effect
  on the result, for any proxy. An object without \<open>url\<close> gives no proxy. The object
  \<open>{url: http://1.2.3.4:8080, username: u, password: p}\<close> gives
  \<open>http://u:p@1.2.3.4:8080\<close>.
\<close>

theorem adapt_proxy_canonical:
  "(parse u = Inr parsed \<and> url_scheme parsed = Some scheme \<and> url_host parsed = Some host \<longrightarrow>
      adapt_proxy parse
        (Some (ProxyObj \<lparr>proxy_url = Some u, proxy_username = user, proxy_password = pass\<rparr>)) =
      Inr (Some (scheme @ ''://'' @
        (case user of
           None \<Rightarrow> []
         | Some n \<Rightarrow>
             if n = [] then []
             else n @ '':'' @ (case pass of None \<Rightarrow> [] | Some p \<Rightarrow> p) @ ''@'') @
        host @
        (case url_port parsed of
           None \<Rightarrow> []
         | Some p \<Rightarrow> if p = 0 then [] else '':'' @ str_int p))) \<and>
      adapt_proxy parse
        (Some (ProxyObj \<lparr>proxy_url = Some u, proxy_username = None, proxy_password = pass\<rparr>)) =
      Inr (Some (scheme @ ''://'' @ host @
        (case url_port parsed of
           None \<Rightarrow> []
         | Some p \<Rightarrow> if p = 0 then [] else '':'' @ str_int p)))) \<and>
   adapt_proxy (\<lambda>x. map_sum id (\<lambda>q. q\<lparr>url_auth := auth\<rparr>) (parse x)) proxy =
     adapt_proxy parse proxy \<and>
   adapt_proxy parse
     (Some (ProxyObj \<lparr>proxy_url = None, proxy_username = user, proxy_password = pass\<rparr>)) =
     Inr None \<and>
   (parse ''http://1.2.3.4:8080'' =
      Inr \<lparr>url_scheme = Some ''http'', url_auth = None, url_host = Some ''1.2.3.4'',
           url_port = Some 8080, url_path = None, url_query = None, url_fragment = None\<rparr> \<longrightarrow>
      adapt_proxy parse
        (Some (ProxyObj \<lparr>proxy_url = Some ''http://1.2.3.4:8080'', proxy_username = Some ''u'',
                         proxy_password = Some ''p''\<rparr>)) =
      Inr (Some ''http://u:p@1.2.3.4:8080''))"
proof (intro conjI impI)
  assume "parse u = Inr parsed \<and> url_scheme parsed = Some scheme \<and> url_host parsed = Some host"
  then show "adapt_proxy parse
        (Some (ProxyObj \<lparr>proxy_url = Some u, proxy_username = user, proxy_password = pass\<rparr>)) =
      Inr (Some (scheme @ ''://'' @
        (case user of
           None \<Rightarrow> []
         | Some n \<Rightarrow>
             if n = [] then []
             else n @ '':'' @ (case pass of None \<Rightarrow> [] | Some p \<Rightarrow> p) @ ''@'') @
        host @
        (case url_port parsed of
           None \<Rightarrow> []
         | Some p \<Rightarrow> if p = 0 then [] else '':'' @ str_int p)))"
    by (simp add: adapt_proxy_def credentials_def split: option.splits)
next
  assume "parse u = Inr parsed \<and> url_scheme parsed = Some scheme \<and> url_host parsed = Some host"
  then show "adapt_proxy parse
        (Some (ProxyObj \<lparr>proxy_url = Some u, proxy_username = None, proxy_password = pass\<rparr>)) =
      Inr (Some (scheme @ ''://'' @ host @
        (case url_port parsed of
           None \<Rightarrow> []
         | Some p \<Rightarrow> if p = 0 then [] else '':'' @ str_int p)))"
    by (simp add: adapt_proxy_def credentials_def)
next
  show "adapt_proxy (\<lambda>x. map_sum id (\<lambda>q. q\<lparr>url_auth := auth\<rparr>) (parse x)) proxy =
     adapt_proxy parse proxy"
  proof (cases proxy)
    case None
    then show ?thesis by (simp add: adapt_proxy_def)
  next
    case (Some pa)
    show ?thesis
    proof (cases pa)
      case (ProxyStr s)
      with Some show ?thesis by (simp add: adapt_proxy_def)
    next
      case (ProxyObj pm)
      show ?thesis
      proof (cases "proxy_url pm")
        case None
        with Some ProxyObj show ?thesis by (simp add: adapt_proxy_def)
      next
        case (Some x)
        with \<open>proxy = Some pa\<close> ProxyObj show ?thesis
          by (cases "parse x") (simp_all add: adapt_proxy_def split: option.splits)
      qed
    qed
  qed
next
  show "adapt_proxy parse
     (Some (ProxyObj \<lparr>proxy_url = None, proxy_username = user, proxy_password = pass\<rparr>)) =
     Inr None"
    by (simp add: adapt_proxy_def)
next
  assume "parse ''http://1.2.3.4:8080'' =
      Inr \<lparr>url_scheme = Some ''http'', url_auth = None, url_host = Some ''1.2.3.4'',
           url_port = Some 8080, url_path = None, url_query = None, url_fragment = None\<rparr>"
  then show "adapt_proxy parse
        (Some (ProxyObj \<lparr>proxy_url = Some ''http://1.2.3.4:8080'', proxy_username = Some ''u'',
                         proxy_password = Some ''p''\<rparr>)) =
      Inr (Some ''http://u:p@1.2.3.4:8080'')"
    by (simp add: adapt_proxy_def credentials_def str_int_8080)
qed

theorem adapt_proxy_canonical_witness:
  "parse_url sample_environment ''http://1.2.3.4:8080'' =
     Inr \<lparr>url_scheme = Some ''http'', url_auth = None, url_host = Some ''1.2.3.4'',
          url_port = Some 8080, url_path = None, url_query = None, url_fragment = None\<rparr> \<and>
   adapt_proxy (parse_url sample_environment)
     (Some (ProxyObj \<lparr>proxy_url = Some ''http://1.2.3.4:8080'', proxy_username = Some ''u'',
                      proxy_password = Some ''p''\<rparr>)) =
     Inr (Some ''http://u:p@1.2.3.4:8080'') \<and>
   adapt_proxy (parse_url sample_environment)
     (Some (ProxyObj \<lparr>proxy_url = Some ''http://1.2.3.4:8080'', proxy_username = None,
                      proxy_password = None\<rparr>)) =
     Inr (Some (''http'' @ ''://'' @ ''1.2.3.4'' @ '':'' @ str_int 8080))"
proof -
  let ?parsed = "\<lparr>url_scheme = Some ''http'', url_auth = None, url_host = Some ''1.2.3.4'',
          url_port = Some 8080, url_path = None, url_query = None, url_fragment = None\<rparr>"
  have parse: "parse_url sample_environment ''http://1.2.3.4:8080'' = Inr ?parsed"
    by (simp add: sample_environment_def sample_parsed_url_def)
  note example = adapt_proxy_canonical [of "parse_url sample_environment",
      THEN conjunct2, THEN conjunct2, THEN conjunct2, rule_format]
  note general = adapt_proxy_canonical [of "parse_url sample_environment"
      "''http://1.2.3.4:8080''" ?parsed "''http''" "''1.2.3.4''" None None,
      THEN conjunct1, rule_format]
  have hyp: "parse_url sample_environment ''http://1.2.3.4:8080'' = Inr ?parsed \<and>
      url_scheme ?parsed = Some ''http'' \<and> url_host ?parsed = Some ''1.2.3.4''"
    using parse by simp
  from general [OF hyp] have "adapt_proxy (parse_url sample_environment)
     (Some (ProxyObj \<lparr>proxy_url = Some ''http://1.2.3.4:8080'', proxy_username = None,
                      proxy_password = None\<rparr>)) =
     Inr (Some (''http'' @ ''://'' @ ''1.2.3.4'' @ '':'' @ str_int 8080))"
    by simp
  with parse example [OF parse] show ?thesis by blast
qed


end
